theory Spec2Isabelle
  imports Main "HOL-Library.Product_Lexorder"
begin

unbundle bit_operations_syntax

section \<open>Python values\<close>

text \<open>
  A Python \<open>str\<close> is a sequence of Unicode code points; \<open>ascii\<close> turns an ASCII
  literal of the source into that sequence.
\<close>

type_synonym pystr = "nat list"

definition ascii :: "string \<Rightarrow> pystr" where
  "ascii cs = map of_char cs"

text \<open>
  A float is kept only as far as its truth value needs: sign, mantissa and exponent of
  a finite value, the two infinities and NaN. The script does no float arithmetic.
\<close>

datatype pyfloat = Finite bool nat int | Infinity bool | NaN

text \<open>
  The values \<open>json.loads\<close> returns. A dict is the list of its items (keys
  distinct); \<open>map_of\<close> looks a key up.
\<close>

datatype pyval =
    PNone
  | PBool bool
  | PInt int
  | PFloat pyfloat
  | PStr pystr
  | PList "pyval list"
  | PDict "(pystr \<times> pyval) list"

text \<open>Python's truth value testing, as \<open>not x\<close> uses it.\<close>

fun truthy :: "pyval \<Rightarrow> bool" where
  "truthy PNone = False"
| "truthy (PBool b) = b"
| "truthy (PInt i) = (i \<noteq> 0)"
| "truthy (PFloat (Finite sg m e)) = (m \<noteq> 0)"
| "truthy (PFloat (Infinity sg)) = True"
| "truthy (PFloat NaN) = True"
| "truthy (PStr s) = (s \<noteq> [])"
| "truthy (PList xs) = (xs \<noteq> [])"
| "truthy (PDict kvs) = (kvs \<noteq> [])"

fun type_name :: "pyval \<Rightarrow> pystr" where
  "type_name PNone = ascii ''NoneType''"
| "type_name (PBool b) = ascii ''bool''"
| "type_name (PInt i) = ascii ''int''"
| "type_name (PFloat f) = ascii ''float''"
| "type_name (PStr s) = ascii ''str''"
| "type_name (PList xs) = ascii ''list''"
| "type_name (PDict kvs) = ascii ''dict''"

text \<open>
  An instance of \<open>Exception\<close>: \<open>type(e).__name__\<close> and \<open>str(e)\<close>.
  \<open>SystemExit\<close> is not one; it is the \<open>Exit\<close> result below.
\<close>

datatype exn = Exn (exn_type: pystr) (exn_msg: pystr)

text \<open>
  \<open>input_data.get(key, default)\<close>: only a dict has the method; on any other
  value the attribute lookup raises AttributeError.
\<close>

definition dict_get :: "(pystr \<times> pyval) list \<Rightarrow> pystr \<Rightarrow> pyval \<Rightarrow> pyval" where
  "dict_get kvs k d = (case map_of kvs k of Some v \<Rightarrow> v | None \<Rightarrow> d)"

fun py_get :: "pyval \<Rightarrow> pystr \<Rightarrow> pyval \<Rightarrow> exn + pyval" where
  "py_get (PDict kvs) k d = Inr (dict_get kvs k d)"
| "py_get v k d =
     Inl (Exn (ascii ''AttributeError'')
            ([39] @ type_name v @ [39] @ ascii '' object has no attribute '' @ [39] @ ascii ''get'' @ [39]))"

section \<open>json.dumps\<close>

text \<open>
  \<open>json.dumps\<close> with its default options (\<open>ensure_ascii\<close>, separators
  \<open>", "\<close> and \<open>": "\<close>) on the dicts the script builds: the keys are
  \<open>str\<close>, the values \<open>str\<close> or \<open>bool\<close>.
\<close>

datatype jvalue = JStr pystr | JBool bool

definition hex_digit :: "nat \<Rightarrow> nat" where
  "hex_digit d = (if d < 10 then 48 + d else 87 + d)"

definition hex4 :: "nat \<Rightarrow> pystr" where
  "hex4 n = [hex_digit (n div 4096 mod 16), hex_digit (n div 256 mod 16),
             hex_digit (n div 16 mod 16), hex_digit (n mod 16)]"

text \<open>
  One code point of a string: the double quote and the backslash get a backslash, the five control
  characters with a short form take it, printable ASCII stays, everything else is
  \<open>\uXXXX\<close> (a surrogate pair beyond the basic plane).
\<close>

definition escape_char :: "nat \<Rightarrow> pystr" where
  "escape_char c =
     (if c = 34 then [92, 34]
      else if c = 92 then [92, 92]
      else if c = 8 then [92, 98]
      else if c = 12 then [92, 102]
      else if c = 10 then [92, 110]
      else if c = 13 then [92, 114]
      else if c = 9 then [92, 116]
      else if 32 \<le> c \<and> c \<le> 126 then [c]
      else if c < 0x10000 then [92, 117] @ hex4 c
      else
        (let n = c - 0x10000;
             s1 = 0xd800 OR (drop_bit 10 n AND 0x3ff);
             s2 = 0xdc00 OR (n AND 0x3ff)
         in [92, 117] @ hex4 s1 @ [92, 117] @ hex4 s2))"

definition encode_str :: "pystr \<Rightarrow> pystr" where
  "encode_str s = [34] @ concat (map escape_char s) @ [34]"

fun dumps_value :: "jvalue \<Rightarrow> pystr" where
  "dumps_value (JStr s) = encode_str s"
| "dumps_value (JBool b) = (if b then ascii ''true'' else ascii ''false'')"

fun join :: "pystr \<Rightarrow> pystr list \<Rightarrow> pystr" where
  "join sep [] = []"
| "join sep [x] = x"
| "join sep (x # y # ys) = x @ sep @ join sep (y # ys)"

definition dumps_item :: "pystr \<times> jvalue \<Rightarrow> pystr" where
  "dumps_item kv = encode_str (fst kv) @ ascii '': '' @ dumps_value (snd kv)"

definition dumps :: "(pystr \<times> jvalue) list \<Rightarrow> pystr" where
  "dumps d = ascii ''{'' @ join (ascii '', '') (map dumps_item d) @ ascii ''}''"

section \<open>datetime\<close>

record datetime =
  year :: nat
  month :: nat
  day :: nat
  hour :: nat
  minute :: nat
  second :: nat
  microsecond :: nat

definition is_leap :: "nat \<Rightarrow> bool" where
  "is_leap y = (y mod 4 = 0 \<and> (y mod 100 \<noteq> 0 \<or> y mod 400 = 0))"

definition days_in_month :: "nat \<Rightarrow> nat \<Rightarrow> nat" where
  "days_in_month y m =
     (if m = 2 then (if is_leap y then 29 else 28)
      else if m = 4 \<or> m = 6 \<or> m = 9 \<or> m = 11 then 30 else 31)"

text \<open>The ranges every \<open>datetime\<close> object keeps (MINYEAR is 1, MAXYEAR 9999).\<close>

definition valid_datetime :: "datetime \<Rightarrow> bool" where
  "valid_datetime d =
     (1 \<le> year d \<and> year d \<le> 9999 \<and> 1 \<le> month d \<and> month d \<le> 12
      \<and> 1 \<le> day d \<and> day d \<le> days_in_month (year d) (month d)
      \<and> hour d < 24 \<and> minute d < 60 \<and> second d < 60 \<and> microsecond d < 1000000)"

text \<open>Naive datetimes compare field by field, most significant first.\<close>

definition datetime_le :: "datetime \<Rightarrow> datetime \<Rightarrow> bool" where
  "datetime_le a b =
     ((year a, month a, day a, hour a, minute a, second a, microsecond a)
      \<le> (year b, month b, day b, hour b, minute b, second b, microsecond b))"

text \<open>\<open>str(n)\<close> for a natural number, and \<open>'%0kd' % n\<close>.\<close>

fun digits :: "nat \<Rightarrow> pystr" where
  "digits n = (if n < 10 then [48 + n] else digits (n div 10) @ [48 + n mod 10])"

declare digits.simps [simp del]

definition fmt_d :: "nat \<Rightarrow> nat \<Rightarrow> pystr" where
  "fmt_d k n = replicate (k - length (digits n)) 48 @ digits n"

text \<open>
  \<open>datetime.isoformat()\<close> of a naive datetime: \<open>YYYY-MM-DDTHH:MM:SS\<close>, followed by
  \<open>.ffffff\<close> when the microsecond is not 0.
\<close>

definition isoformat :: "datetime \<Rightarrow> pystr" where
  "isoformat d =
     fmt_d 4 (year d) @ [45] @ fmt_d 2 (month d) @ [45] @ fmt_d 2 (day d) @ [84]
     @ fmt_d 2 (hour d) @ [58] @ fmt_d 2 (minute d) @ [58] @ fmt_d 2 (second d)
     @ (if microsecond d \<noteq> 0 then [46] @ fmt_d 6 (microsecond d) else [])"

section \<open>The process and its collaborators\<close>

text \<open>
  Everything the script reaches outside itself is a field of the world: the JSON parser,
  the environment (as it is after \<open>load_dotenv()\<close>), the four operations of the chat
  client and the wall clock. \<open>'c\<close> is the state of a chat object, \<open>'m\<close> a user
  message object. A call of the collaborator returns or raises an \<open>Exception\<close>.
  \<open>with_model\<close> changes the chat object; its field returns the changed object.
  The clock is read at a logical instant, the number of effects the process has
  performed so far.
\<close>

record ('c, 'm) world =
  json_loads :: "pystr \<Rightarrow> exn + pyval"
  environ :: "pystr \<rightharpoonup> pystr"
  LlmChat :: "pyval \<Rightarrow> pyval \<Rightarrow> pyval \<Rightarrow> exn + 'c"
  with_model :: "'c \<Rightarrow> pyval \<Rightarrow> pyval \<Rightarrow> exn + 'c"
  UserMessage :: "pyval \<Rightarrow> exn + 'm"
  send_message :: "'c \<Rightarrow> 'm \<Rightarrow> exn + pystr"
  clock :: "nat \<Rightarrow> datetime"

definition getenv :: "('c, 'm) world \<Rightarrow> pystr \<Rightarrow> pystr \<Rightarrow> pystr" where
  "getenv w k d = (case environ w k of Some v \<Rightarrow> v | None \<Rightarrow> d)"

datatype ('c, 'm) event =
    Call_json_loads pystr
  | Call_LlmChat pyval pyval pyval
  | Call_with_model 'c pyval pyval
  | Call_UserMessage pyval
  | Call_send_message 'c 'm
  | Call_now
  | Call_print pystr

text \<open>
  The state of the process: the text written to standard output and the effects
  performed, in order.
\<close>

record ('c, 'm) proc =
  stdout :: pystr
  trace :: "('c, 'm) event list"

definition start :: "('c, 'm) proc" where
  "start = \<lparr>stdout = [], trace = []\<rparr>"

text \<open>
  A statement returns, raises an \<open>Exception\<close>, or raises \<open>SystemExit\<close> with a
  status (\<open>sys.exit\<close>).
\<close>

datatype 'a result = Return 'a | Raise exn | Exit int

type_synonym ('c, 'm, 'a) prog = "('c, 'm) proc \<Rightarrow> 'a result \<times> ('c, 'm) proc"

definition and_then :: "('c, 'm, 'a) prog \<Rightarrow> ('a \<Rightarrow> ('c, 'm, 'b) prog) \<Rightarrow> ('c, 'm, 'b) prog" where
  "and_then p f s =
     (case p s of
        (Return x, s') \<Rightarrow> f x s'
      | (Raise e, s') \<Rightarrow> (Raise e, s')
      | (Exit n, s') \<Rightarrow> (Exit n, s'))"

definition skip :: "('c, 'm, unit) prog" where
  "skip s = (Return (), s)"

definition lift :: "exn + 'a \<Rightarrow> ('c, 'm, 'a) prog" where
  "lift r s = (case r of Inl e \<Rightarrow> (Raise e, s) | Inr x \<Rightarrow> (Return x, s))"

definition call :: "('c, 'm) event \<Rightarrow> exn + 'a \<Rightarrow> ('c, 'm, 'a) prog" where
  "call ev r s = lift r (s\<lparr>trace := trace s @ [ev]\<rparr>)"

definition print :: "pystr \<Rightarrow> ('c, 'm, unit) prog" where
  "print t s = (Return (), s\<lparr>stdout := stdout s @ t @ [10], trace := trace s @ [Call_print t]\<rparr>)"

definition sys_exit :: "int \<Rightarrow> ('c, 'm, 'a) prog" where
  "sys_exit n s = (Exit n, s)"

definition now :: "('c, 'm) world \<Rightarrow> ('c, 'm, datetime) prog" where
  "now w s = (Return (clock w (length (trace s))), s\<lparr>trace := trace s @ [Call_now]\<rparr>)"

section \<open>main\<close>

text \<open>
  Lines 37 to 50: the chat is built and given its model, the message is sent, the
  answer is printed with the time of printing.
\<close>

definition delegate ::
  "('c, 'm) world \<Rightarrow> pyval \<Rightarrow> pyval \<Rightarrow> pyval \<Rightarrow> pyval \<Rightarrow> pyval \<Rightarrow> pyval \<Rightarrow> ('c, 'm, unit) prog" where
  "delegate w api_key session_id system_message provider model message =
     and_then (call (Call_LlmChat api_key session_id system_message)
                 (LlmChat w api_key session_id system_message)) (\<lambda>chat0.
     and_then (call (Call_with_model chat0 provider model)
                 (with_model w chat0 provider model)) (\<lambda>chat.
     and_then (call (Call_UserMessage message) (UserMessage w message)) (\<lambda>user_message.
     and_then (call (Call_send_message chat user_message)
                 (send_message w chat user_message)) (\<lambda>response.
     and_then (now w) (\<lambda>t.
     print (dumps [(ascii ''success'', JBool True),
                   (ascii ''response'', JStr response),
                   (ascii ''timestamp'', JStr (isoformat t))]))))))"

text \<open>The body of the \<open>try\<close> statement, lines 16 to 50.\<close>

definition main_try :: "('c, 'm) world \<Rightarrow> pystr list \<Rightarrow> ('c, 'm, unit) prog" where
  "main_try w argv =
     and_then
       (if length argv < 2 then
          and_then (print (dumps [(ascii ''error'', JStr (ascii ''No input provided''))]))
            (\<lambda>_. sys_exit 1)
        else skip) (\<lambda>_.
     and_then (call (Call_json_loads (argv ! 1)) (json_loads w (argv ! 1))) (\<lambda>input_data.
     and_then (lift (py_get input_data (ascii ''sessionId'') (PStr (ascii ''default'')))) (\<lambda>session_id.
     and_then (lift (py_get input_data (ascii ''message'') (PStr []))) (\<lambda>message.
     and_then (lift (py_get input_data (ascii ''provider'') (PStr (ascii ''openai'')))) (\<lambda>provider.
     and_then (lift (py_get input_data (ascii ''model'') (PStr (ascii ''gpt-4o-mini'')))) (\<lambda>model.
     and_then (lift (py_get input_data (ascii ''apiKey'')
                      (PStr (getenv w (ascii ''EMERGENT_LLM_KEY'') [])))) (\<lambda>api_key.
     and_then (lift (py_get input_data (ascii ''systemMessage'')
                      (PStr (ascii ''You are Shadow, an AI coding agent.'')))) (\<lambda>system_message.
     and_then
       (if \<not> truthy message then
          and_then (print (dumps [(ascii ''error'', JStr (ascii ''No message provided''))]))
            (\<lambda>_. sys_exit 1)
        else skip) (\<lambda>_.
     and_then
       (if \<not> truthy api_key then
          and_then (print (dumps [(ascii ''error'', JStr (ascii ''No API key provided''))]))
            (\<lambda>_. sys_exit 1)
        else skip) (\<lambda>_.
     delegate w api_key session_id system_message provider model message))))))))))"

text \<open>
  \<open>main\<close>: the \<open>try\<close> statement with its handler, lines 52 to 57.
  \<open>except Exception\<close> takes an \<open>Exception\<close>; \<open>SystemExit\<close> passes through it.
\<close>

definition main :: "('c, 'm) world \<Rightarrow> pystr list \<Rightarrow> ('c, 'm, unit) prog" where
  "main w argv s =
     (case main_try w argv s of
        (Raise e, s') \<Rightarrow>
          and_then (print (dumps [(ascii ''error'', JStr (exn_msg e)),
                                  (ascii ''type'', JStr (exn_type e))]))
            (\<lambda>_. sys_exit 1) s'
      | r \<Rightarrow> r)"

text \<open>
  \<open>asyncio.run(main())\<close> as the whole process: what was written to standard output,
  the effects, and the exit status: 0 when \<open>main\<close> returns, the status of
  \<open>SystemExit\<close>, and 1 with a traceback when an exception is left uncaught.
\<close>

datatype ending = Exited int | Uncaught exn

definition ending_of :: "unit result \<Rightarrow> ending" where
  "ending_of r = (case r of Return _ \<Rightarrow> Exited 0 | Exit n \<Rightarrow> Exited n | Raise e \<Rightarrow> Uncaught e)"

definition exit_status :: "ending \<Rightarrow> int" where
  "exit_status e = (case e of Exited n \<Rightarrow> n | Uncaught _ \<Rightarrow> 1)"

definition run :: "('c, 'm) world \<Rightarrow> pystr list \<Rightarrow> ending \<times> ('c, 'm) proc" where
  "run w argv = (case main w argv start of (r, s) \<Rightarrow> (ending_of r, s))"

text \<open>
  The six local variables of lines 22 to 27, when \<open>input_data\<close> is the dict with the
  items \<open>kvs\<close>.
\<close>

abbreviation session_id_of :: "(pystr \<times> pyval) list \<Rightarrow> pyval" where
  "session_id_of kvs \<equiv> dict_get kvs (ascii ''sessionId'') (PStr (ascii ''default''))"

abbreviation message_of :: "(pystr \<times> pyval) list \<Rightarrow> pyval" where
  "message_of kvs \<equiv> dict_get kvs (ascii ''message'') (PStr [])"

abbreviation provider_of :: "(pystr \<times> pyval) list \<Rightarrow> pyval" where
  "provider_of kvs \<equiv> dict_get kvs (ascii ''provider'') (PStr (ascii ''openai''))"

abbreviation model_of :: "(pystr \<times> pyval) list \<Rightarrow> pyval" where
  "model_of kvs \<equiv> dict_get kvs (ascii ''model'') (PStr (ascii ''gpt-4o-mini''))"

abbreviation api_key_of :: "('c, 'm) world \<Rightarrow> (pystr \<times> pyval) list \<Rightarrow> pyval" where
  "api_key_of w kvs \<equiv>
     dict_get kvs (ascii ''apiKey'') (PStr (getenv w (ascii ''EMERGENT_LLM_KEY'') []))"

abbreviation system_message_of :: "(pystr \<times> pyval) list \<Rightarrow> pyval" where
  "system_message_of kvs \<equiv>
     dict_get kvs (ascii ''systemMessage'') (PStr (ascii ''You are Shadow, an AI coding agent.''))"

text \<open>
  What the collaborator does with one request, apart from the process: the response, or
  the first exception one of its four operations raises.
\<close>

definition collaborate ::
  "('c, 'm) world \<Rightarrow> pyval \<Rightarrow> pyval \<Rightarrow> pyval \<Rightarrow> pyval \<Rightarrow> pyval \<Rightarrow> pyval \<Rightarrow> exn + pystr" where
  "collaborate w api_key session_id system_message provider model message =
     (case LlmChat w api_key session_id system_message of
        Inl e \<Rightarrow> Inl e
      | Inr chat0 \<Rightarrow>
          (case with_model w chat0 provider model of
             Inl e \<Rightarrow> Inl e
           | Inr chat \<Rightarrow>
               (case UserMessage w message of
                  Inl e \<Rightarrow> Inl e
                | Inr user_message \<Rightarrow> send_message w chat user_message)))"

text \<open>The kinds of effect the claims count.\<close>

fun is_construction :: "('c, 'm) event \<Rightarrow> bool" where
  "is_construction (Call_LlmChat k sid sm) = True"
| "is_construction ev = False"

fun is_submission :: "('c, 'm) event \<Rightarrow> bool" where
  "is_submission (Call_send_message c um) = True"
| "is_submission ev = False"

fun is_print :: "('c, 'm) event \<Rightarrow> bool" where
  "is_print (Call_print t) = True"
| "is_print ev = False"

section \<open>The result shapes and timestamps of the specification\<close>

text \<open>
  The two ChatResult shapes of the specification: success with \<open>success\<close>,
  \<open>response\<close> and \<open>timestamp\<close>; failure with \<open>error\<close> and an optional
  \<open>type\<close>.
\<close>

fun success_shape :: "(pystr \<times> jvalue) list \<Rightarrow> bool" where
  "success_shape [(k1, JBool b), (k2, JStr r), (k3, JStr t)] =
     (k1 = ascii ''success'' \<and> b \<and> k2 = ascii ''response'' \<and> k3 = ascii ''timestamp'')"
| "success_shape d = False"

fun failure_shape :: "(pystr \<times> jvalue) list \<Rightarrow> bool" where
  "failure_shape [(k1, JStr m)] = (k1 = ascii ''error'')"
| "failure_shape [(k1, JStr m), (k2, JStr c)] = (k1 = ascii ''error'' \<and> k2 = ascii ''type'')"
| "failure_shape d = False"

text \<open>
  What the specification calls a valid ISO-8601 timestamp, read back from text: the
  extended format \<open>YYYY-MM-DDTHH:MM:SS\<close> with an optional fraction of six digits,
  every field in its calendar range.
\<close>

definition digit_val :: "nat \<Rightarrow> nat option" where
  "digit_val c = (if 48 \<le> c \<and> c \<le> 57 then Some (c - 48) else None)"

fun parse_digits :: "nat \<Rightarrow> pystr \<Rightarrow> nat option" where
  "parse_digits acc [] = Some acc"
| "parse_digits acc (c # cs) =
     (case digit_val c of None \<Rightarrow> None | Some d \<Rightarrow> parse_digits (10 * acc + d) cs)"

definition parse_field :: "pystr \<Rightarrow> nat \<Rightarrow> nat \<Rightarrow> nat option" where
  "parse_field s i n = parse_digits 0 (take n (drop i s))"

definition iso8601_parse :: "pystr \<Rightarrow> datetime option" where
  "iso8601_parse s =
     (if (length s = 19 \<or> (length s = 26 \<and> s ! 19 = 46))
         \<and> s ! 4 = 45 \<and> s ! 7 = 45 \<and> s ! 10 = 84 \<and> s ! 13 = 58 \<and> s ! 16 = 58
      then
        (case parse_field s 0 4 of None \<Rightarrow> None | Some y \<Rightarrow>
        (case parse_field s 5 2 of None \<Rightarrow> None | Some mo \<Rightarrow>
        (case parse_field s 8 2 of None \<Rightarrow> None | Some d \<Rightarrow>
        (case parse_field s 11 2 of None \<Rightarrow> None | Some h \<Rightarrow>
        (case parse_field s 14 2 of None \<Rightarrow> None | Some mi \<Rightarrow>
        (case parse_field s 17 2 of None \<Rightarrow> None | Some sec \<Rightarrow>
        (case (if length s = 26 then parse_field s 20 6 else Some 0) of None \<Rightarrow> None | Some us \<Rightarrow>
           (let t = \<lparr>year = y, month = mo, day = d, hour = h, minute = mi,
                     second = sec, microsecond = us\<rparr>
            in if valid_datetime t then Some t else None))))))))
      else None)"

text \<open>
  A wall clock the timestamp claim can be made of: every reading is a datetime, and a
  later instant never reads earlier.
\<close>

definition clock_ok :: "('c, 'm) world \<Rightarrow> bool" where
  "clock_ok w =
     ((\<forall>i. valid_datetime (clock w i)) \<and> (\<forall>i j. i \<le> j \<longrightarrow> datetime_le (clock w i) (clock w j)))"

section \<open>Example worlds\<close>

text \<open>
  A stub collaborator that answers \<open>hello\<close>, \<open>json.loads\<close> on the argument texts
  the examples use (any other text they use is not JSON), an environment that holds the
  fallback key, and a clock that advances one microsecond per effect.
\<close>

definition stub_loads :: "pystr \<Rightarrow> exn + pyval" where
  \<open>stub_loads s =
     (if s = ascii ''{"message": "hi", "apiKey": "k"}'' then
        Inr (PDict [(ascii ''message'', PStr (ascii ''hi'')), (ascii ''apiKey'', PStr (ascii ''k''))])
      else if s = ascii ''{"apiKey": "k"}'' then
        Inr (PDict [(ascii ''apiKey'', PStr (ascii ''k''))])
      else if s = ascii ''{"message": "hi"}'' then
        Inr (PDict [(ascii ''message'', PStr (ascii ''hi''))])
      else if s = ascii ''{"message": "hi", "apiKey": ""}'' then
        Inr (PDict [(ascii ''message'', PStr (ascii ''hi'')), (ascii ''apiKey'', PStr [])])
      else if s = ascii ''{"message": 0, "apiKey": "k"}'' then
        Inr (PDict [(ascii ''message'', PInt 0), (ascii ''apiKey'', PStr (ascii ''k''))])
      else Inl (Exn (ascii ''JSONDecodeError'')
                  (ascii ''Expecting value: line 1 column 1 (char 0)'')))\<close>

definition stub_clock :: "nat \<Rightarrow> datetime" where
  "stub_clock n = \<lparr>year = 2024, month = 2, day = 29, hour = 23, minute = 59, second = 58,
                   microsecond = min n 999999\<rparr>"

definition stub_world :: "(nat, pyval) world" where
  "stub_world =
     \<lparr>json_loads = stub_loads,
      environ = [ascii ''EMERGENT_LLM_KEY'' \<mapsto> ascii ''envkey''],
      LlmChat = (\<lambda>api_key session_id system_message. Inr 0),
      with_model = (\<lambda>chat provider model. Inr (Suc chat)),
      UserMessage = (\<lambda>text. Inr text),
      send_message = (\<lambda>chat user_message. Inr (ascii ''hello'')),
      clock = stub_clock\<rparr>"

text \<open>The same world with an empty environment, and one whose chat client fails.\<close>

definition bare_world :: "(nat, pyval) world" where
  "bare_world = stub_world\<lparr>environ := Map.empty\<rparr>"

definition failing_world :: "(nat, pyval) world" where
  "failing_world =
     stub_world\<lparr>send_message :=
       (\<lambda>chat user_message. Inl (Exn (ascii ''RuntimeError'') (ascii ''boom'')))\<rparr>"

section \<open>Sequencing\<close>

lemma and_then_print: "and_then (print t) f s = f () (s\<lparr>stdout := stdout s @ t @ [10], trace := trace s @ [Call_print t]\<rparr>)"
  by (simp add: and_then_def print_def)

lemma and_then_skip: "and_then skip f s = f () s"
  by (simp add: and_then_def skip_def)

lemma and_then_sys_exit: "and_then (sys_exit n) f s = (Exit n, s)"
  by (simp add: and_then_def sys_exit_def)

lemma and_then_lift_Inr: "and_then (lift (Inr x)) f s = f x s"
  by (simp add: and_then_def lift_def)

lemma and_then_lift_Inl: "and_then (lift (Inl e)) f s = (Raise e, s)"
  by (simp add: and_then_def lift_def)

lemma and_then_call_Inr: "and_then (call ev (Inr x)) f s = f x (s\<lparr>trace := trace s @ [ev]\<rparr>)"
  by (simp add: and_then_def call_def lift_def)

lemma and_then_call_Inl: "and_then (call ev (Inl e)) f s = (Raise e, s\<lparr>trace := trace s @ [ev]\<rparr>)"
  by (simp add: and_then_def call_def lift_def)

lemma and_then_now: "and_then (now w) f s = f (clock w (length (trace s))) (s\<lparr>trace := trace s @ [Call_now]\<rparr>)"
  by (simp add: and_then_def now_def)

lemma and_then_if: "and_then (if c then p else q) f s = (if c then and_then p f s else and_then q f s)"
  by simp

lemma and_then_assoc: "and_then (and_then p g) f s = and_then p (\<lambda>x. and_then (g x) f) s"
  by (simp add: and_then_def split: prod.splits result.splits)

lemmas prog_simps = and_then_assoc sys_exit_def and_then_print and_then_skip and_then_sys_exit and_then_lift_Inr
  and_then_lift_Inl and_then_call_Inr and_then_call_Inl and_then_now and_then_if

lemma main_no_input:
  assumes "length argv < 2"
  shows "main w argv s =
    (Exit 1, s\<lparr>stdout := stdout s @ dumps [(ascii ''error'', JStr (ascii ''No input provided''))] @ [10],
               trace := trace s @ [Call_print (dumps [(ascii ''error'', JStr (ascii ''No input provided''))])]\<rparr>)"
  using assms by (simp add: main_def main_try_def prog_simps)

lemma main_raise:
  assumes "main_try w argv s = (Raise e, s')"
  shows "main w argv s =
    (Exit 1, s'\<lparr>stdout := stdout s' @ dumps [(ascii ''error'', JStr (exn_msg e)), (ascii ''type'', JStr (exn_type e))] @ [10],
               trace := trace s' @ [Call_print (dumps [(ascii ''error'', JStr (exn_msg e)), (ascii ''type'', JStr (exn_type e))])]\<rparr>)"
  using assms by (simp add: main_def prog_simps)

lemma main_try_loads_fail:
  assumes "2 \<le> length argv" "json_loads w (argv ! 1) = Inl e"
  shows "main_try w argv s = (Raise e, s\<lparr>trace := trace s @ [Call_json_loads (argv ! 1)]\<rparr>)"
  using assms by (simp add: main_try_def prog_simps)

lemma dumps_no_input: \<open>dumps [(ascii ''error'', JStr (ascii ''No input provided''))] = ascii ''{"error": "No input provided"}''\<close>
  by (simp add: dumps_def dumps_item_def encode_str_def escape_char_def ascii_def)


lemma main_try_dict:
  assumes "2 \<le> length argv" "json_loads w (argv ! 1) = Inr (PDict kvs)"
  shows "main_try w argv s =
    (let s1 = s\<lparr>trace := trace s @ [Call_json_loads (argv ! 1)]\<rparr>;
         message = dict_get kvs (ascii ''message'') (PStr []);
         api_key = dict_get kvs (ascii ''apiKey'') (PStr (getenv w (ascii ''EMERGENT_LLM_KEY'') []))
     in if \<not> truthy message then
          (Exit 1, s1\<lparr>stdout := stdout s1 @ dumps [(ascii ''error'', JStr (ascii ''No message provided''))] @ [10],
                      trace := trace s1 @ [Call_print (dumps [(ascii ''error'', JStr (ascii ''No message provided''))])]\<rparr>)
        else if \<not> truthy api_key then
          (Exit 1, s1\<lparr>stdout := stdout s1 @ dumps [(ascii ''error'', JStr (ascii ''No API key provided''))] @ [10],
                      trace := trace s1 @ [Call_print (dumps [(ascii ''error'', JStr (ascii ''No API key provided''))])]\<rparr>)
        else delegate w api_key
               (dict_get kvs (ascii ''sessionId'') (PStr (ascii ''default'')))
               (dict_get kvs (ascii ''systemMessage'') (PStr (ascii ''You are Shadow, an AI coding agent.'')))
               (dict_get kvs (ascii ''provider'') (PStr (ascii ''openai'')))
               (dict_get kvs (ascii ''model'') (PStr (ascii ''gpt-4o-mini'')))
               message s1)"
  using assms by (simp add: main_try_def prog_simps Let_def)

lemma main_try_not_dict:
  assumes "2 \<le> length argv" "json_loads w (argv ! 1) = Inr v" "\<forall>kvs. v \<noteq> PDict kvs"
  shows "main_try w argv s =
    (Raise (Exn (ascii ''AttributeError'')
            ([39] @ type_name v @ [39] @ ascii '' object has no attribute '' @ [39] @ ascii ''get'' @ [39])),
     s\<lparr>trace := trace s @ [Call_json_loads (argv ! 1)]\<rparr>)"
  using assms by (cases v) (simp_all add: main_try_def prog_simps)


lemma delegate_LlmChat_raises:
  assumes "LlmChat w k sid sm = Inl e"
  shows "delegate w k sid sm p m msg s = (Raise e, s\<lparr>trace := trace s @ [Call_LlmChat k sid sm]\<rparr>)"
  using assms by (simp add: delegate_def prog_simps)

lemma delegate_with_model_raises:
  assumes "LlmChat w k sid sm = Inr c0" "with_model w c0 p m = Inl e"
  shows "delegate w k sid sm p m msg s =
    (Raise e, s\<lparr>trace := trace s @ [Call_LlmChat k sid sm, Call_with_model c0 p m]\<rparr>)"
  using assms by (simp add: delegate_def prog_simps)

lemma delegate_UserMessage_raises:
  assumes "LlmChat w k sid sm = Inr c0" "with_model w c0 p m = Inr c" "UserMessage w msg = Inl e"
  shows "delegate w k sid sm p m msg s =
    (Raise e, s\<lparr>trace := trace s @ [Call_LlmChat k sid sm, Call_with_model c0 p m, Call_UserMessage msg]\<rparr>)"
  using assms by (simp add: delegate_def prog_simps)

lemma delegate_send_message_raises:
  assumes "LlmChat w k sid sm = Inr c0" "with_model w c0 p m = Inr c" "UserMessage w msg = Inr um"
    and "send_message w c um = Inl e"
  shows "delegate w k sid sm p m msg s =
    (Raise e, s\<lparr>trace := trace s @ [Call_LlmChat k sid sm, Call_with_model c0 p m, Call_UserMessage msg,
                                      Call_send_message c um]\<rparr>)"
  using assms by (simp add: delegate_def prog_simps)

lemma delegate_returns:
  assumes "LlmChat w k sid sm = Inr c0" "with_model w c0 p m = Inr c" "UserMessage w msg = Inr um"
    and "send_message w c um = Inr r"
  shows "delegate w k sid sm p m msg s =
    (Return (),
     s\<lparr>stdout := stdout s @ dumps [(ascii ''success'', JBool True), (ascii ''response'', JStr r),
                                    (ascii ''timestamp'', JStr (isoformat (clock w (length (trace s) + 4))))] @ [10],
       trace := trace s @ [Call_LlmChat k sid sm, Call_with_model c0 p m, Call_UserMessage msg,
                           Call_send_message c um, Call_now,
                           Call_print (dumps [(ascii ''success'', JBool True), (ascii ''response'', JStr r),
                                    (ascii ''timestamp'', JStr (isoformat (clock w (length (trace s) + 4))))])]\<rparr>)"
proof -
  have four: "Suc (Suc (Suc (Suc n))) = n + 4" for n :: nat by simp
  show ?thesis using assms by (simp add: delegate_def prog_simps print_def four)
qed

section \<open>The text json.dumps writes\<close>

lemma dumps_no_message: \<open>dumps [(ascii ''error'', JStr (ascii ''No message provided''))] = ascii ''{"error": "No message provided"}''\<close>
  by (simp add: dumps_def dumps_item_def encode_str_def escape_char_def ascii_def)

lemma dumps_no_api_key: \<open>dumps [(ascii ''error'', JStr (ascii ''No API key provided''))] = ascii ''{"error": "No API key provided"}''\<close>
  by (simp add: dumps_def dumps_item_def encode_str_def escape_char_def ascii_def)

lemma dumps_error_type:
  \<open>dumps [(ascii ''error'', JStr m), (ascii ''type'', JStr c)] =
     ascii ''{"error": '' @ encode_str m @ ascii '', "type": '' @ encode_str c @ ascii ''}''\<close>
  by (simp add: dumps_def dumps_item_def encode_str_def escape_char_def ascii_def)

lemma dumps_success:
  \<open>dumps [(ascii ''success'', JBool True), (ascii ''response'', JStr r), (ascii ''timestamp'', JStr t)] =
     ascii ''{"success": true, "response": '' @ encode_str r @ ascii '', "timestamp": '' @ encode_str t @ ascii ''}''\<close>
  by (simp add: dumps_def dumps_item_def encode_str_def escape_char_def ascii_def)

lemma hex4_printable: "x \<in> set (hex4 n) \<Longrightarrow> 32 \<le> x \<and> x \<le> 126"
  by (auto simp: hex4_def hex_digit_def)

lemma escape_char_printable: "x \<in> set (escape_char c) \<Longrightarrow> 32 \<le> x \<and> x \<le> 126"
  by (auto simp: escape_char_def Let_def dest: hex4_printable split: if_splits)

lemma encode_str_printable: "x \<in> set (encode_str s) \<Longrightarrow> 32 \<le> x \<and> x \<le> 126"
  by (auto simp: encode_str_def dest: escape_char_printable)

lemma dumps_value_printable: "x \<in> set (dumps_value v) \<Longrightarrow> 32 \<le> x \<and> x \<le> 126"
  by (cases v) (auto simp: ascii_def dest: encode_str_printable split: if_splits)

lemma dumps_item_printable: "x \<in> set (dumps_item kv) \<Longrightarrow> 32 \<le> x \<and> x \<le> 126"
  by (auto simp: dumps_item_def ascii_def dest: encode_str_printable dumps_value_printable)

lemma join_printable:
  "x \<in> set (join sep xs) \<Longrightarrow> x \<in> set sep \<or> (\<exists>y \<in> set xs. x \<in> set y)"
  by (induction sep xs rule: join.induct) auto

lemma dumps_printable: "x \<in> set (dumps d) \<Longrightarrow> 32 \<le> x \<and> x \<le> 126"
  by (auto simp: dumps_def ascii_def dest!: join_printable dest: dumps_item_printable)

lemma dumps_one_line: "10 \<notin> set (dumps d)"
  using dumps_printable[of 10 d] by auto

section \<open>Reading an isoformat timestamp back\<close>

lemma digit_val_digit: "d < 10 \<Longrightarrow> digit_val (48 + d) = Some d"
  by (simp add: digit_val_def)

lemma parse_digits_append:
  "parse_digits a (xs @ ys) = (case parse_digits a xs of None \<Rightarrow> None | Some b \<Rightarrow> parse_digits b ys)"
  by (induction xs arbitrary: a) (auto split: option.splits)

lemma parse_digits_digits: "parse_digits a (digits n) = Some (a * 10 ^ length (digits n) + n)"
proof (induction n arbitrary: a rule: digits.induct)
  case (1 n)
  show ?case
  proof (cases "n < 10")
    case True
    then show ?thesis by (simp add: digits.simps[of n] digit_val_digit)
  next
    case False
    have m: "n mod 10 < 10" by simp
    from False 1[OF False, of a] show ?thesis
      by (simp add: digits.simps[of n] parse_digits_append digit_val_digit[OF m] algebra_simps)
  qed
qed

lemma parse_digits_zeros: "parse_digits 0 (replicate k 48) = Some 0"
  by (induction k) (simp_all add: digit_val_def)

lemma parse_digits_fmt_d: "parse_digits 0 (fmt_d k n) = Some n"
  by (simp add: fmt_d_def parse_digits_append parse_digits_zeros parse_digits_digits)

lemma length_digits: "n < 10 ^ k \<Longrightarrow> 0 < k \<Longrightarrow> length (digits n) \<le> k"
proof (induction n arbitrary: k rule: digits.induct)
  case (1 n)
  show ?case
  proof (cases "n < 10")
    case True
    then show ?thesis using 1(3) by (simp add: digits.simps[of n])
  next
    case False
    then obtain k' where k: "k = Suc k'" using 1(3) by (cases k) auto
    with False 1(2) have "0 < k'" by (cases k') auto
    moreover from 1(2) k have "n div 10 < 10 ^ k'" by (simp add: less_mult_imp_div_less mult.commute)
    ultimately have "length (digits (n div 10)) \<le> k'" using 1(1)[OF False] by simp
    with False k show ?thesis by (simp add: digits.simps[of n])
  qed
qed

lemma length_fmt_d: "n < 10 ^ k \<Longrightarrow> 0 < k \<Longrightarrow> length (fmt_d k n) = k"
  using length_digits[of n k] by (simp add: fmt_d_def)

lemma iso8601_parse_isoformat:
  assumes "valid_datetime d"
  shows "iso8601_parse (isoformat d) = Some d"
proof -
  from assms have r: "year d < 10 ^ 4" "month d < 10 ^ 2" "day d < 10 ^ 2" "hour d < 10 ^ 2"
    "minute d < 10 ^ 2" "second d < 10 ^ 2" "microsecond d < 10 ^ 6"
    by (auto simp: valid_datetime_def days_in_month_def split: if_splits)
  note len = length_fmt_d[OF r(1)] length_fmt_d[OF r(2)] length_fmt_d[OF r(3)] length_fmt_d[OF r(4)]
    length_fmt_d[OF r(5)] length_fmt_d[OF r(6)] length_fmt_d[OF r(7)]
  have eq: "\<lparr>year = year d, month = month d, day = day d, hour = hour d, minute = minute d,
             second = second d, microsecond = microsecond d\<rparr> = d"
    by simp
  have eq0: "microsecond d = 0 \<Longrightarrow>
    \<lparr>year = year d, month = month d, day = day d, hour = hour d, minute = minute d,
     second = second d, microsecond = 0\<rparr> = d"
    using eq by metis
  show ?thesis
    using assms
    by (simp add: iso8601_parse_def isoformat_def parse_field_def len nth_append
        parse_digits_fmt_d Let_def eq eq0)
qed

section \<open>The runs of the process\<close>

lemma run_no_input:
  assumes "length argv < 2"
  shows "run w argv =
    (Exited 1, \<lparr>stdout = dumps [(ascii ''error'', JStr (ascii ''No input provided''))] @ [10],
                trace = [Call_print (dumps [(ascii ''error'', JStr (ascii ''No input provided''))])]\<rparr>)"
  by (simp add: run_def main_no_input[OF assms] start_def ending_of_def)

lemma run_raise:
  assumes "main_try w argv start = (Raise e, s')"
  shows "run w argv =
    (Exited 1,
     \<lparr>stdout = stdout s' @ dumps [(ascii ''error'', JStr (exn_msg e)), (ascii ''type'', JStr (exn_type e))] @ [10],
      trace = trace s' @ [Call_print (dumps [(ascii ''error'', JStr (exn_msg e)), (ascii ''type'', JStr (exn_type e))])]\<rparr>)"
  by (simp add: run_def main_raise[OF assms] ending_of_def)

lemma run_loads_fail:
  assumes "2 \<le> length argv" "json_loads w (argv ! 1) = Inl e"
  shows "run w argv =
    (Exited 1,
     \<lparr>stdout = dumps [(ascii ''error'', JStr (exn_msg e)), (ascii ''type'', JStr (exn_type e))] @ [10],
      trace = [Call_json_loads (argv ! 1),
               Call_print (dumps [(ascii ''error'', JStr (exn_msg e)), (ascii ''type'', JStr (exn_type e))])]\<rparr>)"
  by (simp add: run_raise[OF main_try_loads_fail[OF assms]] start_def)

lemma run_not_dict:
  assumes "2 \<le> length argv" "json_loads w (argv ! 1) = Inr v" "\<forall>kvs. v \<noteq> PDict kvs"
  shows "\<exists>m. run w argv =
    (Exited 1,
     \<lparr>stdout = dumps [(ascii ''error'', JStr m), (ascii ''type'', JStr (ascii ''AttributeError''))] @ [10],
      trace = [Call_json_loads (argv ! 1),
               Call_print (dumps [(ascii ''error'', JStr m), (ascii ''type'', JStr (ascii ''AttributeError''))])]\<rparr>)"
  unfolding run_raise[OF main_try_not_dict[OF assms]] by (simp add: start_def) blast

lemma run_no_message:
  assumes "2 \<le> length argv" "json_loads w (argv ! 1) = Inr (PDict kvs)"
    and "\<not> truthy (dict_get kvs (ascii ''message'') (PStr []))"
  shows "run w argv =
    (Exited 1, \<lparr>stdout = dumps [(ascii ''error'', JStr (ascii ''No message provided''))] @ [10],
                trace = [Call_json_loads (argv ! 1),
                         Call_print (dumps [(ascii ''error'', JStr (ascii ''No message provided''))])]\<rparr>)"
  using assms(3)
  by (simp add: run_def main_def main_try_dict[OF assms(1,2)] start_def ending_of_def)

lemma run_no_api_key:
  assumes "2 \<le> length argv" "json_loads w (argv ! 1) = Inr (PDict kvs)"
    and "truthy (dict_get kvs (ascii ''message'') (PStr []))"
    and "\<not> truthy (dict_get kvs (ascii ''apiKey'') (PStr (getenv w (ascii ''EMERGENT_LLM_KEY'') [])))"
  shows "run w argv =
    (Exited 1, \<lparr>stdout = dumps [(ascii ''error'', JStr (ascii ''No API key provided''))] @ [10],
                trace = [Call_json_loads (argv ! 1),
                         Call_print (dumps [(ascii ''error'', JStr (ascii ''No API key provided''))])]\<rparr>)"
  using assms(3,4)
  by (simp add: run_def main_def main_try_dict[OF assms(1,2)] start_def ending_of_def)

lemma main_try_valid:
  assumes "2 \<le> length argv" "json_loads w (argv ! 1) = Inr (PDict kvs)"
    and "truthy (dict_get kvs (ascii ''message'') (PStr []))"
    and "truthy (dict_get kvs (ascii ''apiKey'') (PStr (getenv w (ascii ''EMERGENT_LLM_KEY'') [])))"
  shows "main_try w argv start =
    delegate w (dict_get kvs (ascii ''apiKey'') (PStr (getenv w (ascii ''EMERGENT_LLM_KEY'') [])))
      (dict_get kvs (ascii ''sessionId'') (PStr (ascii ''default'')))
      (dict_get kvs (ascii ''systemMessage'') (PStr (ascii ''You are Shadow, an AI coding agent.'')))
      (dict_get kvs (ascii ''provider'') (PStr (ascii ''openai'')))
      (dict_get kvs (ascii ''model'') (PStr (ascii ''gpt-4o-mini'')))
      (dict_get kvs (ascii ''message'') (PStr []))
      \<lparr>stdout = [], trace = [Call_json_loads (argv ! 1)]\<rparr>"
  using assms(3,4) by (simp add: main_try_dict[OF assms(1,2)] start_def)

lemma run_success:
  assumes "main_try w argv start = delegate w k sid sm p m msg \<lparr>stdout = [], trace = [Call_json_loads a]\<rparr>"
    and "LlmChat w k sid sm = Inr c0" "with_model w c0 p m = Inr c" "UserMessage w msg = Inr um"
    and "send_message w c um = Inr r"
  shows "run w argv =
    (Exited 0,
     \<lparr>stdout = dumps [(ascii ''success'', JBool True), (ascii ''response'', JStr r),
                      (ascii ''timestamp'', JStr (isoformat (clock w 5)))] @ [10],
      trace = [Call_json_loads a, Call_LlmChat k sid sm, Call_with_model c0 p m, Call_UserMessage msg,
               Call_send_message c um, Call_now,
               Call_print (dumps [(ascii ''success'', JBool True), (ascii ''response'', JStr r),
                      (ascii ''timestamp'', JStr (isoformat (clock w 5)))])]\<rparr>)"
  by (simp add: run_def main_def assms(1) delegate_returns[OF assms(2-5)] ending_of_def)


lemma collaborate_raises:
  assumes "collaborate w k sid sm p m msg = Inl e"
  shows "\<exists>tr. delegate w k sid sm p m msg s = (Raise e, s\<lparr>trace := trace s @ Call_LlmChat k sid sm # tr\<rparr>)
              \<and> filter is_construction tr = [] \<and> length (filter is_submission tr) \<le> 1
              \<and> filter is_print tr = []"
proof (cases "LlmChat w k sid sm")
  case (Inl e')
  with assms have "e' = e" by (simp add: collaborate_def)
  with delegate_LlmChat_raises[OF Inl] show ?thesis by (intro exI[of _ "[]"]) simp
next
  case c0: (Inr c0)
  show ?thesis
  proof (cases "with_model w c0 p m")
    case (Inl e')
    with assms c0 have "e' = e" by (simp add: collaborate_def)
    with delegate_with_model_raises[OF c0 Inl] show ?thesis
      by (intro exI[of _ "[Call_with_model c0 p m]"]) simp
  next
    case c: (Inr c)
    show ?thesis
    proof (cases "UserMessage w msg")
      case (Inl e')
      with assms c0 c have "e' = e" by (simp add: collaborate_def)
      with delegate_UserMessage_raises[OF c0 c Inl] show ?thesis
        by (intro exI[of _ "[Call_with_model c0 p m, Call_UserMessage msg]"]) simp
    next
      case um: (Inr um)
      with assms c0 c have "send_message w c um = Inl e" by (simp add: collaborate_def)
      from delegate_send_message_raises[OF c0 c um this] show ?thesis
        by (intro exI[of _ "[Call_with_model c0 p m, Call_UserMessage msg, Call_send_message c um]"]) simp
    qed
  qed
qed

lemma collaborate_returns:
  assumes "collaborate w k sid sm p m msg = Inr r"
  obtains c0 c um where "LlmChat w k sid sm = Inr c0" "with_model w c0 p m = Inr c"
    "UserMessage w msg = Inr um" "send_message w c um = Inr r"
  using assms by (auto simp: collaborate_def split: sum.splits)

lemma run_collaborator_raises:
  assumes "2 \<le> length argv" "json_loads w (argv ! 1) = Inr (PDict kvs)"
    and "truthy (dict_get kvs (ascii ''message'') (PStr []))"
    and "truthy (dict_get kvs (ascii ''apiKey'') (PStr (getenv w (ascii ''EMERGENT_LLM_KEY'') [])))"
    and "collaborate w (dict_get kvs (ascii ''apiKey'') (PStr (getenv w (ascii ''EMERGENT_LLM_KEY'') [])))
      (dict_get kvs (ascii ''sessionId'') (PStr (ascii ''default'')))
      (dict_get kvs (ascii ''systemMessage'') (PStr (ascii ''You are Shadow, an AI coding agent.'')))
      (dict_get kvs (ascii ''provider'') (PStr (ascii ''openai'')))
      (dict_get kvs (ascii ''model'') (PStr (ascii ''gpt-4o-mini'')))
      (dict_get kvs (ascii ''message'') (PStr [])) = Inl e"
  shows "\<exists>tr. run w argv =
    (Exited 1,
     \<lparr>stdout = dumps [(ascii ''error'', JStr (exn_msg e)), (ascii ''type'', JStr (exn_type e))] @ [10],
      trace = [Call_json_loads (argv ! 1),
               Call_LlmChat (dict_get kvs (ascii ''apiKey'') (PStr (getenv w (ascii ''EMERGENT_LLM_KEY'') [])))
                 (dict_get kvs (ascii ''sessionId'') (PStr (ascii ''default'')))
                 (dict_get kvs (ascii ''systemMessage'') (PStr (ascii ''You are Shadow, an AI coding agent.'')))]
              @ tr @
              [Call_print (dumps [(ascii ''error'', JStr (exn_msg e)), (ascii ''type'', JStr (exn_type e))])]\<rparr>)
     \<and> filter is_construction tr = [] \<and> length (filter is_submission tr) \<le> 1 \<and> filter is_print tr = []"
proof -
  note mt = main_try_valid[OF assms(1-4)]
  from collaborate_raises[OF assms(5), of "\<lparr>stdout = [], trace = [Call_json_loads (argv ! 1)]\<rparr>"]
  obtain tr where d: "main_try w argv start =
      (Raise e, \<lparr>stdout = [], trace = [Call_json_loads (argv ! 1)] @
         Call_LlmChat (dict_get kvs (ascii ''apiKey'') (PStr (getenv w (ascii ''EMERGENT_LLM_KEY'') [])))
                 (dict_get kvs (ascii ''sessionId'') (PStr (ascii ''default'')))
                 (dict_get kvs (ascii ''systemMessage'') (PStr (ascii ''You are Shadow, an AI coding agent.''))) # tr\<rparr>)"
    and f: "filter is_construction tr = []" "length (filter is_submission tr) \<le> 1" "filter is_print tr = []"
    unfolding mt by auto
  show ?thesis
    unfolding run_raise[OF d] using f by (intro exI[of _ tr]) simp
qed

lemma run_collaborator_returns:
  assumes "2 \<le> length argv" "json_loads w (argv ! 1) = Inr (PDict kvs)"
    and "truthy (dict_get kvs (ascii ''message'') (PStr []))"
    and "truthy (dict_get kvs (ascii ''apiKey'') (PStr (getenv w (ascii ''EMERGENT_LLM_KEY'') [])))"
    and "LlmChat w (dict_get kvs (ascii ''apiKey'') (PStr (getenv w (ascii ''EMERGENT_LLM_KEY'') [])))
      (dict_get kvs (ascii ''sessionId'') (PStr (ascii ''default'')))
      (dict_get kvs (ascii ''systemMessage'') (PStr (ascii ''You are Shadow, an AI coding agent.''))) = Inr c0"
    and "with_model w c0 (dict_get kvs (ascii ''provider'') (PStr (ascii ''openai'')))
      (dict_get kvs (ascii ''model'') (PStr (ascii ''gpt-4o-mini''))) = Inr c"
    and "UserMessage w (dict_get kvs (ascii ''message'') (PStr [])) = Inr um"
    and "send_message w c um = Inr r"
  shows "run w argv =
    (Exited 0,
     \<lparr>stdout = dumps [(ascii ''success'', JBool True), (ascii ''response'', JStr r),
                      (ascii ''timestamp'', JStr (isoformat (clock w 5)))] @ [10],
      trace = [Call_json_loads (argv ! 1),
               Call_LlmChat (dict_get kvs (ascii ''apiKey'') (PStr (getenv w (ascii ''EMERGENT_LLM_KEY'') [])))
                 (dict_get kvs (ascii ''sessionId'') (PStr (ascii ''default'')))
                 (dict_get kvs (ascii ''systemMessage'') (PStr (ascii ''You are Shadow, an AI coding agent.''))),
               Call_with_model c0 (dict_get kvs (ascii ''provider'') (PStr (ascii ''openai'')))
                 (dict_get kvs (ascii ''model'') (PStr (ascii ''gpt-4o-mini''))),
               Call_UserMessage (dict_get kvs (ascii ''message'') (PStr [])),
               Call_send_message c um, Call_now,
               Call_print (dumps [(ascii ''success'', JBool True), (ascii ''response'', JStr r),
                      (ascii ''timestamp'', JStr (isoformat (clock w 5)))])]\<rparr>)"
  by (rule run_success[OF main_try_valid[OF assms(1-4)] assms(5-8)])

lemma run_send_message_raises:
  assumes "2 \<le> length argv" "json_loads w (argv ! 1) = Inr (PDict kvs)"
    and "truthy (message_of kvs)" "truthy (api_key_of w kvs)"
    and "LlmChat w (api_key_of w kvs) (session_id_of kvs) (system_message_of kvs) = Inr c0"
    and "with_model w c0 (provider_of kvs) (model_of kvs) = Inr c"
    and "UserMessage w (message_of kvs) = Inr um"
    and "send_message w c um = Inl e"
  shows "trace (snd (run w argv)) =
    [Call_json_loads (argv ! 1),
     Call_LlmChat (api_key_of w kvs) (session_id_of kvs) (system_message_of kvs),
     Call_with_model c0 (provider_of kvs) (model_of kvs),
     Call_UserMessage (message_of kvs),
     Call_send_message c um,
     Call_print (dumps [(ascii ''error'', JStr (exn_msg e)), (ascii ''type'', JStr (exn_type e))])]"
proof -
  have "main_try w argv start =
    (Raise e, \<lparr>stdout = [], trace = [Call_json_loads (argv ! 1),
       Call_LlmChat (api_key_of w kvs) (session_id_of kvs) (system_message_of kvs),
       Call_with_model c0 (provider_of kvs) (model_of kvs),
       Call_UserMessage (message_of kvs), Call_send_message c um]\<rparr>)"
    unfolding main_try_valid[OF assms(1-4)] delegate_send_message_raises[OF assms(5-8)] by simp
  from run_raise[OF this] show ?thesis by simp
qed

lemma run_one_line:
  "\<exists>d. stdout (snd (run w argv)) = dumps d @ [10] \<and> (success_shape d \<or> failure_shape d)
       \<and> filter is_print (trace (snd (run w argv))) = [Call_print (dumps d)]"
proof (cases "length argv < 2")
  case True
  show ?thesis
    unfolding run_no_input[OF True]
    by (intro exI[of _ "[(ascii ''error'', JStr (ascii ''No input provided''))]"]) simp
next
  case False
  then have len: "2 \<le> length argv" by simp
  show ?thesis
  proof (cases "json_loads w (argv ! 1)")
    case (Inl e)
    show ?thesis
      unfolding run_loads_fail[OF len Inl]
      by (intro exI[of _ "[(ascii ''error'', JStr (exn_msg e)), (ascii ''type'', JStr (exn_type e))]"]) simp
  next
    case (Inr v)
    show ?thesis
    proof (cases "\<exists>kvs. v = PDict kvs")
      case False
      then have "\<forall>kvs. v \<noteq> PDict kvs" by simp
      from run_not_dict[OF len Inr this] obtain m where
        "run w argv =
          (Exited 1,
           \<lparr>stdout = dumps [(ascii ''error'', JStr m), (ascii ''type'', JStr (ascii ''AttributeError''))] @ [10],
            trace = [Call_json_loads (argv ! 1),
                     Call_print (dumps [(ascii ''error'', JStr m), (ascii ''type'', JStr (ascii ''AttributeError''))])]\<rparr>)"
        by blast
      then show ?thesis
        by (intro exI[of _ "[(ascii ''error'', JStr m), (ascii ''type'', JStr (ascii ''AttributeError''))]"]) simp
    next
      case True
      then obtain kvs where l: "json_loads w (argv ! 1) = Inr (PDict kvs)" using Inr by blast
      show ?thesis
      proof (cases "truthy (message_of kvs)")
        case False
        show ?thesis
          unfolding run_no_message[OF len l False]
          by (intro exI[of _ "[(ascii ''error'', JStr (ascii ''No message provided''))]"]) simp
      next
        case msg: True
        show ?thesis
        proof (cases "truthy (api_key_of w kvs)")
          case False
          show ?thesis
            unfolding run_no_api_key[OF len l msg False]
            by (intro exI[of _ "[(ascii ''error'', JStr (ascii ''No API key provided''))]"]) simp
        next
          case key: True
          show ?thesis
          proof (cases "collaborate w (api_key_of w kvs) (session_id_of kvs) (system_message_of kvs)
                          (provider_of kvs) (model_of kvs) (message_of kvs)")
            case (Inl e)
            from run_collaborator_raises[OF len l msg key Inl] obtain tr where
              r: "run w argv =
                (Exited 1,
                 \<lparr>stdout = dumps [(ascii ''error'', JStr (exn_msg e)), (ascii ''type'', JStr (exn_type e))] @ [10],
                  trace = [Call_json_loads (argv ! 1),
                           Call_LlmChat (api_key_of w kvs) (session_id_of kvs) (system_message_of kvs)] @ tr @
                          [Call_print (dumps [(ascii ''error'', JStr (exn_msg e)), (ascii ''type'', JStr (exn_type e))])]\<rparr>)"
              and f: "filter is_print tr = []"
              by blast
            show ?thesis
              unfolding r using f
              by (intro exI[of _ "[(ascii ''error'', JStr (exn_msg e)), (ascii ''type'', JStr (exn_type e))]"]) simp
          next
            case (Inr r)
            then obtain c0 c um where c:
              "LlmChat w (api_key_of w kvs) (session_id_of kvs) (system_message_of kvs) = Inr c0"
              "with_model w c0 (provider_of kvs) (model_of kvs) = Inr c"
              "UserMessage w (message_of kvs) = Inr um" "send_message w c um = Inr r"
              by (rule collaborate_returns)
            show ?thesis
              unfolding run_collaborator_returns[OF len l msg key c]
              by (intro exI[of _ "[(ascii ''success'', JBool True), (ascii ''response'', JStr r),
                      (ascii ''timestamp'', JStr (isoformat (clock w 5)))]"]) simp
          qed
        qed
      qed
    qed
  qed
qed

lemma digits_range: "x \<in> set (digits n) \<Longrightarrow> 48 \<le> x \<and> x \<le> 57"
proof (induction n rule: digits.induct)
  case (1 n)
  show ?case
  proof (cases "n < 10")
    case True
    with 1(2) show ?thesis by (simp add: digits.simps[of n])
  next
    case False
    have "n mod 10 < 10" by simp
    then have "48 + n mod 10 \<le> 57" by linarith
    with False 1 show ?thesis by (auto simp: digits.simps[of n])
  qed
qed

lemma fmt_d_range: "x \<in> set (fmt_d k n) \<Longrightarrow> 48 \<le> x \<and> x \<le> 57"
  by (auto simp: fmt_d_def dest: digits_range)

lemma isoformat_range: "x \<in> set (isoformat d) \<Longrightarrow> 45 \<le> x \<and> x \<le> 84"
  by (auto simp: isoformat_def dest!: fmt_d_range split: if_splits)

lemma escape_char_plain: "45 \<le> c \<Longrightarrow> c \<le> 84 \<Longrightarrow> escape_char c = [c]"
  by (simp add: escape_char_def)

lemma concat_escape_plain: "(\<And>x. x \<in> set s \<Longrightarrow> 45 \<le> x \<and> x \<le> 84) \<Longrightarrow> concat (map escape_char s) = s"
  by (induction s) (simp_all add: escape_char_plain)

lemma encode_str_isoformat: "encode_str (isoformat d) = [34] @ isoformat d @ [34]"
  using concat_escape_plain[of "isoformat d"] isoformat_range by (simp add: encode_str_def)

lemma escape_char_nonempty: "escape_char c \<noteq> []"
  by (simp add: escape_char_def Let_def hex4_def)

lemma encode_str_nonempty: "s \<noteq> [] \<Longrightarrow> encode_str s \<noteq> [34, 34]"
  by (cases s) (auto simp: encode_str_def escape_char_nonempty append_eq_Cons_conv)

lemma dumps_success_iso:
  \<open>dumps [(ascii ''success'', JBool True), (ascii ''response'', JStr r), (ascii ''timestamp'', JStr (isoformat t))] =
     ascii ''{"success": true, "response": '' @ encode_str r @ ascii '', "timestamp": "'' @ isoformat t @ ascii ''"}''\<close>
  by (simp add: dumps_success encode_str_isoformat) (simp add: ascii_def)

section \<open>The example worlds at work\<close>

lemma falsy_values:
  "\<not> truthy (PInt 0)" "\<not> truthy (PBool False)" "\<not> truthy PNone" "\<not> truthy (PList [])"
  "\<not> truthy (PDict [])" "\<not> truthy (PFloat (Finite sg 0 e))" "\<not> truthy (PStr [])"
  by simp_all

lemma stub_loads_hi_k:
  \<open>json_loads stub_world (ascii ''{"message": "hi", "apiKey": "k"}'') =
     Inr (PDict [(ascii ''message'', PStr (ascii ''hi'')), (ascii ''apiKey'', PStr (ascii ''k''))])\<close>
  by (simp add: stub_world_def stub_loads_def ascii_def)

lemma stub_loads_hi:
  \<open>json_loads bare_world (ascii ''{"message": "hi"}'') =
     Inr (PDict [(ascii ''message'', PStr (ascii ''hi''))])\<close>
  by (simp add: bare_world_def stub_world_def stub_loads_def ascii_def)

lemma stub_loads_hi_empty:
  \<open>json_loads stub_world (ascii ''{"message": "hi", "apiKey": ""}'') =
     Inr (PDict [(ascii ''message'', PStr (ascii ''hi'')), (ascii ''apiKey'', PStr [])])\<close>
  by (simp add: stub_world_def stub_loads_def ascii_def)

lemma stub_loads_zero:
  \<open>json_loads stub_world (ascii ''{"message": 0, "apiKey": "k"}'') =
     Inr (PDict [(ascii ''message'', PInt 0), (ascii ''apiKey'', PStr (ascii ''k''))])\<close>
  by (simp add: stub_world_def stub_loads_def ascii_def)

lemma stub_loads_not_json:
  \<open>json_loads stub_world (ascii ''not json'') =
     Inl (Exn (ascii ''JSONDecodeError'') (ascii ''Expecting value: line 1 column 1 (char 0)''))\<close>
  by (simp add: stub_world_def stub_loads_def ascii_def)

lemma stub_loads_hello:
  \<open>json_loads stub_world (ascii ''hello'') =
     Inl (Exn (ascii ''JSONDecodeError'') (ascii ''Expecting value: line 1 column 1 (char 0)''))\<close>
  by (simp add: stub_world_def stub_loads_def ascii_def)

lemma clock_ok_stub: "clock_ok stub_world"
  by (auto simp: clock_ok_def stub_world_def stub_clock_def valid_datetime_def days_in_month_def
      is_leap_def datetime_le_def)

lemma hi_k_fields:
  "message_of [(ascii ''message'', PStr (ascii ''hi'')), (ascii ''apiKey'', PStr (ascii ''k''))] = PStr (ascii ''hi'')"
  "api_key_of w [(ascii ''message'', PStr (ascii ''hi'')), (ascii ''apiKey'', PStr (ascii ''k''))] = PStr (ascii ''k'')"
  "session_id_of [(ascii ''message'', PStr (ascii ''hi'')), (ascii ''apiKey'', PStr (ascii ''k''))] = PStr (ascii ''default'')"
  "system_message_of [(ascii ''message'', PStr (ascii ''hi'')), (ascii ''apiKey'', PStr (ascii ''k''))]
     = PStr (ascii ''You are Shadow, an AI coding agent.'')"
  "provider_of [(ascii ''message'', PStr (ascii ''hi'')), (ascii ''apiKey'', PStr (ascii ''k''))] = PStr (ascii ''openai'')"
  "model_of [(ascii ''message'', PStr (ascii ''hi'')), (ascii ''apiKey'', PStr (ascii ''k''))] = PStr (ascii ''gpt-4o-mini'')"
  by (simp_all add: dict_get_def) (simp_all add: ascii_def)

lemma failing_loads_hi_k:
  \<open>json_loads failing_world (ascii ''{"message": "hi", "apiKey": "k"}'') =
     Inr (PDict [(ascii ''message'', PStr (ascii ''hi'')), (ascii ''apiKey'', PStr (ascii ''k''))])\<close>
  using stub_loads_hi_k by (simp add: failing_world_def)

lemma stub_collaborate_hi_k:
  "collaborate stub_world (PStr (ascii ''k'')) (PStr (ascii ''default''))
     (PStr (ascii ''You are Shadow, an AI coding agent.'')) (PStr (ascii ''openai''))
     (PStr (ascii ''gpt-4o-mini'')) (PStr (ascii ''hi'')) = Inr (ascii ''hello'')"
  by (simp add: collaborate_def stub_world_def)

lemma replicate_5: "replicate 5 x = [x, x, x, x, x]"
  by (simp add: numeral_eq_Suc)

lemma stub_isoformat_5: "isoformat (clock stub_world 5) = ascii ''2024-02-29T23:59:58.000005''"
  by (simp add: stub_world_def stub_clock_def isoformat_def fmt_d_def digits.simps ascii_def
      replicate_5)


lemma stub_encode_ts:
  \<open>encode_str (ascii ''2024-02-29T23:59:58.000005'') = ascii ''"2024-02-29T23:59:58.000005"''\<close>
  by (simp add: encode_str_def escape_char_def ascii_def)

lemma stub_run_hi_k:
  \<open>run stub_world [ascii ''llm_client.py'', ascii ''{"message": "hi", "apiKey": "k"}''] =
     (Exited 0,
      \<lparr>stdout = ascii ''{"success": true, "response": "hello", "timestamp": "2024-02-29T23:59:58.000005"}'' @ [10],
       trace = [Call_json_loads (ascii ''{"message": "hi", "apiKey": "k"}''),
                Call_LlmChat (PStr (ascii ''k'')) (PStr (ascii ''default''))
                  (PStr (ascii ''You are Shadow, an AI coding agent.'')),
                Call_with_model 0 (PStr (ascii ''openai'')) (PStr (ascii ''gpt-4o-mini'')),
                Call_UserMessage (PStr (ascii ''hi'')),
                Call_send_message 1 (PStr (ascii ''hi'')),
                Call_now,
                Call_print (ascii ''{"success": true, "response": "hello", "timestamp": "2024-02-29T23:59:58.000005"}'')]\<rparr>)\<close>
proof -
  let ?kvs = "[(ascii ''message'', PStr (ascii ''hi'')), (ascii ''apiKey'', PStr (ascii ''k''))]"
  have l: \<open>json_loads stub_world ([ascii ''llm_client.py'', ascii ''{"message": "hi", "apiKey": "k"}''] ! 1) =
     Inr (PDict ?kvs)\<close>
    by (simp add: stub_loads_hi_k)
  have t: "truthy (message_of ?kvs)" "truthy (api_key_of stub_world ?kvs)"
    by (simp_all add: hi_k_fields) (simp_all add: ascii_def)
  have c: "LlmChat stub_world (api_key_of stub_world ?kvs) (session_id_of ?kvs) (system_message_of ?kvs) = Inr 0"
    "with_model stub_world 0 (provider_of ?kvs) (model_of ?kvs) = Inr 1"
    "UserMessage stub_world (message_of ?kvs) = Inr (PStr (ascii ''hi''))"
    "send_message stub_world 1 (PStr (ascii ''hi'')) = Inr (ascii ''hello'')"
    by (simp_all add: hi_k_fields) (simp_all add: stub_world_def)
  have h: \<open>encode_str (ascii ''hello'') = ascii ''"hello"''\<close>
    by (simp add: encode_str_def escape_char_def ascii_def)
  have d: \<open>dumps [(ascii ''success'', JBool True), (ascii ''response'', JStr (ascii ''hello'')),
              (ascii ''timestamp'', JStr (isoformat (clock stub_world 5)))] =
           ascii ''{"success": true, "response": "hello", "timestamp": "2024-02-29T23:59:58.000005"}''\<close>
    unfolding dumps_success stub_isoformat_5 h stub_encode_ts by (simp add: ascii_def)
  show ?thesis
    using run_collaborator_returns[OF _ l t c] by (simp add: d hi_k_fields)
qed

lemma stub_calls_hi_k:
  "LlmChat stub_world (PStr (ascii ''k'')) (PStr (ascii ''default''))
     (PStr (ascii ''You are Shadow, an AI coding agent.'')) = Inr 0"
  "with_model stub_world 0 (PStr (ascii ''openai'')) (PStr (ascii ''gpt-4o-mini'')) = Inr 1"
  "UserMessage stub_world (PStr (ascii ''hi'')) = Inr (PStr (ascii ''hi''))"
  by (simp_all add: stub_world_def)

section \<open>The claims\<close>

subsection \<open>C6: no positional argument\<close>

text \<open>
  C6. When the process is started with no positional argument beyond the program name,
  it writes exactly the line \<open>{"error": "No input provided"}\<close> to standard output and
  exits with status 1; the print is its only effect, so nothing was parsed before it.
\<close>

theorem no_input_provided:
  \<open>length argv < 2 \<Longrightarrow>
     run w argv =
       (Exited 1,
        \<lparr>stdout = ascii ''{"error": "No input provided"}'' @ [10],
         trace = [Call_print (ascii ''{"error": "No input provided"}'')]\<rparr>)\<close>
  by (simp add: run_no_input dumps_no_input)

theorem no_input_provided_witness:
  \<open>length [ascii ''llm_client.py''] < 2 \<and>
   run stub_world [ascii ''llm_client.py''] =
     (Exited 1,
      \<lparr>stdout = ascii ''{"error": "No input provided"}'' @ [10],
       trace = [Call_print (ascii ''{"error": "No input provided"}'')]\<rparr>)\<close>
  using no_input_provided[of "[ascii ''llm_client.py'']" stub_world] by simp

subsection \<open>C4: no message\<close>

text \<open>
  C4. When the argument parses to a JSON object whose \<open>message\<close> is absent or the
  empty string, the process writes exactly the line \<open>{"error": "No message provided"}\<close>
  (no \<open>type\<close> field) and exits with status 1, whatever the other fields, the API key
  and the environment are: the message is checked before the API key.
\<close>

theorem no_message_provided:
  \<open>2 \<le> length argv \<Longrightarrow> json_loads w (argv ! 1) = Inr (PDict kvs) \<Longrightarrow>
   map_of kvs (ascii ''message'') = None \<or> map_of kvs (ascii ''message'') = Some (PStr []) \<Longrightarrow>
     run w argv =
       (Exited 1,
        \<lparr>stdout = ascii ''{"error": "No message provided"}'' @ [10],
         trace = [Call_json_loads (argv ! 1),
                  Call_print (ascii ''{"error": "No message provided"}'')]\<rparr>)\<close>
  by (subst run_no_message) (auto simp: dumps_no_message dict_get_def)

theorem no_message_provided_witness:
  \<open>2 \<le> length [ascii ''llm_client.py'', ascii ''{"apiKey": "k"}''] \<and>
   json_loads stub_world ([ascii ''llm_client.py'', ascii ''{"apiKey": "k"}''] ! 1)
     = Inr (PDict [(ascii ''apiKey'', PStr (ascii ''k''))]) \<and>
   map_of [(ascii ''apiKey'', PStr (ascii ''k''))] (ascii ''message'') = None \<and>
   run stub_world [ascii ''llm_client.py'', ascii ''{"apiKey": "k"}''] =
     (Exited 1,
      \<lparr>stdout = ascii ''{"error": "No message provided"}'' @ [10],
       trace = [Call_json_loads (ascii ''{"apiKey": "k"}''),
                Call_print (ascii ''{"error": "No message provided"}'')]\<rparr>)\<close>
proof -
  have l: \<open>json_loads stub_world ([ascii ''llm_client.py'', ascii ''{"apiKey": "k"}''] ! 1)
     = Inr (PDict [(ascii ''apiKey'', PStr (ascii ''k''))])\<close>
    by (simp add: stub_world_def stub_loads_def ascii_def)
  have m: "map_of [(ascii ''apiKey'', PStr (ascii ''k''))] (ascii ''message'') = None"
    by (simp add: ascii_def)
  show ?thesis
    using no_message_provided[OF _ l disjI1[OF m]] l m by simp
qed

subsection \<open>C10: a falsy message of any type\<close>

text \<open>
  C10. The message check is a truth value test: when the argument parses to a JSON
  object whose \<open>message\<close> is present with any falsy value (0, false, null, an empty
  array or object, a zero float, as well as the empty string), the process writes the
  line \<open>{"error": "No message provided"}\<close> and exits with status 1; the trace shows that
  the value never reaches the collaborator.
\<close>

theorem falsy_message_rejected:
  \<open>2 \<le> length argv \<Longrightarrow> json_loads w (argv ! 1) = Inr (PDict kvs) \<Longrightarrow>
   map_of kvs (ascii ''message'') = Some v \<Longrightarrow> \<not> truthy v \<Longrightarrow>
     run w argv =
       (Exited 1,
        \<lparr>stdout = ascii ''{"error": "No message provided"}'' @ [10],
         trace = [Call_json_loads (argv ! 1),
                  Call_print (ascii ''{"error": "No message provided"}'')]\<rparr>)\<close>
  by (subst run_no_message) (auto simp: dumps_no_message dict_get_def)

theorem falsy_message_rejected_witness:
  \<open>2 \<le> length [ascii ''llm_client.py'', ascii ''{"message": 0, "apiKey": "k"}''] \<and>
   json_loads stub_world ([ascii ''llm_client.py'', ascii ''{"message": 0, "apiKey": "k"}''] ! 1) =
     Inr (PDict [(ascii ''message'', PInt 0), (ascii ''apiKey'', PStr (ascii ''k''))]) \<and>
   map_of [(ascii ''message'', PInt 0), (ascii ''apiKey'', PStr (ascii ''k''))] (ascii ''message'')
     = Some (PInt 0) \<and>
   \<not> truthy (PInt 0) \<and>
   run stub_world [ascii ''llm_client.py'', ascii ''{"message": 0, "apiKey": "k"}''] =
     (Exited 1,
      \<lparr>stdout = ascii ''{"error": "No message provided"}'' @ [10],
       trace = [Call_json_loads (ascii ''{"message": 0, "apiKey": "k"}''),
                Call_print (ascii ''{"error": "No message provided"}'')]\<rparr>)\<close>
proof -
  have l: \<open>json_loads stub_world ([ascii ''llm_client.py'', ascii ''{"message": 0, "apiKey": "k"}''] ! 1) =
     Inr (PDict [(ascii ''message'', PInt 0), (ascii ''apiKey'', PStr (ascii ''k''))])\<close>
    by (simp add: stub_loads_zero)
  have m: "map_of [(ascii ''message'', PInt 0), (ascii ''apiKey'', PStr (ascii ''k''))] (ascii ''message'')
     = Some (PInt 0)"
    by simp
  have f: "\<not> truthy (PInt 0)" by simp
  show ?thesis
    using falsy_message_rejected[OF _ l m f] l m f by simp
qed

subsection \<open>C5: no API key\<close>

text \<open>
  C5. When the argument parses to a JSON object with a truthy \<open>message\<close> and no
  \<open>apiKey\<close>, and the environment variable \<open>EMERGENT_LLM_KEY\<close> is absent or empty,
  the process writes exactly the line \<open>{"error": "No API key provided"}\<close> (no
  \<open>type\<close> field) and exits with status 1.
\<close>

theorem no_api_key_provided:
  \<open>2 \<le> length argv \<Longrightarrow> json_loads w (argv ! 1) = Inr (PDict kvs) \<Longrightarrow>
   map_of kvs (ascii ''message'') = Some v \<Longrightarrow> truthy v \<Longrightarrow>
   map_of kvs (ascii ''apiKey'') = None \<Longrightarrow>
   environ w (ascii ''EMERGENT_LLM_KEY'') = None \<or> environ w (ascii ''EMERGENT_LLM_KEY'') = Some [] \<Longrightarrow>
     run w argv =
       (Exited 1,
        \<lparr>stdout = ascii ''{"error": "No API key provided"}'' @ [10],
         trace = [Call_json_loads (argv ! 1),
                  Call_print (ascii ''{"error": "No API key provided"}'')]\<rparr>)\<close>
  by (subst run_no_api_key) (auto simp: dumps_no_api_key dict_get_def getenv_def)

theorem no_api_key_provided_witness:
  \<open>2 \<le> length [ascii ''llm_client.py'', ascii ''{"message": "hi"}''] \<and>
   json_loads bare_world ([ascii ''llm_client.py'', ascii ''{"message": "hi"}''] ! 1) =
     Inr (PDict [(ascii ''message'', PStr (ascii ''hi''))]) \<and>
   map_of [(ascii ''message'', PStr (ascii ''hi''))] (ascii ''message'') = Some (PStr (ascii ''hi'')) \<and>
   truthy (PStr (ascii ''hi'')) \<and>
   map_of [(ascii ''message'', PStr (ascii ''hi''))] (ascii ''apiKey'') = None \<and>
   environ bare_world (ascii ''EMERGENT_LLM_KEY'') = None \<and>
   run bare_world [ascii ''llm_client.py'', ascii ''{"message": "hi"}''] =
     (Exited 1,
      \<lparr>stdout = ascii ''{"error": "No API key provided"}'' @ [10],
       trace = [Call_json_loads (ascii ''{"message": "hi"}''),
                Call_print (ascii ''{"error": "No API key provided"}'')]\<rparr>)\<close>
proof -
  have l: \<open>json_loads bare_world ([ascii ''llm_client.py'', ascii ''{"message": "hi"}''] ! 1) =
     Inr (PDict [(ascii ''message'', PStr (ascii ''hi''))])\<close>
    by (simp add: stub_loads_hi)
  have m: "map_of [(ascii ''message'', PStr (ascii ''hi''))] (ascii ''message'') = Some (PStr (ascii ''hi''))"
    by simp
  have t: "truthy (PStr (ascii ''hi''))" by (simp add: ascii_def)
  have k: "map_of [(ascii ''message'', PStr (ascii ''hi''))] (ascii ''apiKey'') = None"
    by (simp add: ascii_def)
  have e: "environ bare_world (ascii ''EMERGENT_LLM_KEY'') = None"
    by (simp add: bare_world_def)
  show ?thesis
    using no_api_key_provided[OF _ l m t k disjI1[OF e]] l m t k e by simp
qed

subsection \<open>C9: an empty API key in the JSON is not replaced\<close>

text \<open>
  C9. The environment is consulted only as the default of the dict lookup: when the
  JSON object has a truthy \<open>message\<close> and an \<open>apiKey\<close> that is present and the
  empty string, the process writes \<open>{"error": "No API key provided"}\<close> and exits with
  status 1 in every environment, also one that holds a non-empty
  \<open>EMERGENT_LLM_KEY\<close>, as the example after the theorem does.
\<close>

theorem empty_api_key_not_replaced:
  \<open>2 \<le> length argv \<Longrightarrow> json_loads w (argv ! 1) = Inr (PDict kvs) \<Longrightarrow>
   map_of kvs (ascii ''message'') = Some v \<Longrightarrow> truthy v \<Longrightarrow>
   map_of kvs (ascii ''apiKey'') = Some (PStr []) \<Longrightarrow>
     run w argv =
       (Exited 1,
        \<lparr>stdout = ascii ''{"error": "No API key provided"}'' @ [10],
         trace = [Call_json_loads (argv ! 1),
                  Call_print (ascii ''{"error": "No API key provided"}'')]\<rparr>)\<close>
  by (subst run_no_api_key) (auto simp: dumps_no_api_key dict_get_def getenv_def)

theorem empty_api_key_not_replaced_witness:
  \<open>2 \<le> length [ascii ''llm_client.py'', ascii ''{"message": "hi", "apiKey": ""}''] \<and>
   json_loads stub_world ([ascii ''llm_client.py'', ascii ''{"message": "hi", "apiKey": ""}''] ! 1) =
     Inr (PDict [(ascii ''message'', PStr (ascii ''hi'')), (ascii ''apiKey'', PStr [])]) \<and>
   map_of [(ascii ''message'', PStr (ascii ''hi'')), (ascii ''apiKey'', PStr [])] (ascii ''message'')
     = Some (PStr (ascii ''hi'')) \<and>
   truthy (PStr (ascii ''hi'')) \<and>
   map_of [(ascii ''message'', PStr (ascii ''hi'')), (ascii ''apiKey'', PStr [])] (ascii ''apiKey'')
     = Some (PStr []) \<and>
   environ stub_world (ascii ''EMERGENT_LLM_KEY'') = Some (ascii ''envkey'') \<and>
   ascii ''envkey'' \<noteq> [] \<and>
   run stub_world [ascii ''llm_client.py'', ascii ''{"message": "hi", "apiKey": ""}''] =
     (Exited 1,
      \<lparr>stdout = ascii ''{"error": "No API key provided"}'' @ [10],
       trace = [Call_json_loads (ascii ''{"message": "hi", "apiKey": ""}''),
                Call_print (ascii ''{"error": "No API key provided"}'')]\<rparr>)\<close>
proof -
  have l: \<open>json_loads stub_world ([ascii ''llm_client.py'', ascii ''{"message": "hi", "apiKey": ""}''] ! 1) =
     Inr (PDict [(ascii ''message'', PStr (ascii ''hi'')), (ascii ''apiKey'', PStr [])])\<close>
    by (simp add: stub_loads_hi_empty)
  have m: "map_of [(ascii ''message'', PStr (ascii ''hi'')), (ascii ''apiKey'', PStr [])] (ascii ''message'')
     = Some (PStr (ascii ''hi''))"
    by simp
  have t: "truthy (PStr (ascii ''hi''))" by (simp add: ascii_def)
  have k: "map_of [(ascii ''message'', PStr (ascii ''hi'')), (ascii ''apiKey'', PStr [])] (ascii ''apiKey'')
     = Some (PStr [])"
    by (simp add: ascii_def)
  have e: "environ stub_world (ascii ''EMERGENT_LLM_KEY'') = Some (ascii ''envkey'')"
    by (simp add: stub_world_def)
  have n: "ascii ''envkey'' \<noteq> []" by (simp add: ascii_def)
  show ?thesis
    using empty_api_key_not_replaced[OF _ l m t k] l m t k e n by simp
qed

subsection \<open>C1: an argument that is not JSON\<close>

text \<open>
  C1, as stated: a parse failure of the argument is not caught, so the process ends with
  an uncaught exception and writes no JSON body to standard output. The code does
  otherwise: \<open>json.loads\<close> is called inside the \<open>try\<close> statement, and its
  JSONDecodeError is an \<open>Exception\<close>. On the argument \<open>not json\<close> the process
  writes an error body with the type JSONDecodeError and exits through
  \<open>sys.exit(1)\<close>.
\<close>

theorem malformed_json_counterexample:
  \<open>json_loads stub_world ([ascii ''llm_client.py'', ascii ''not json''] ! 1) =
     Inl (Exn (ascii ''JSONDecodeError'') (ascii ''Expecting value: line 1 column 1 (char 0)'')) \<and>
   run stub_world [ascii ''llm_client.py'', ascii ''not json''] =
     (Exited 1,
      \<lparr>stdout = ascii ''{"error": "Expecting value: line 1 column 1 (char 0)", "type": "JSONDecodeError"}'' @ [10],
       trace = [Call_json_loads (ascii ''not json''),
                Call_print (ascii ''{"error": "Expecting value: line 1 column 1 (char 0)", "type": "JSONDecodeError"}'')]\<rparr>) \<and>
   fst (run stub_world [ascii ''llm_client.py'', ascii ''not json''])
     \<noteq> Uncaught (Exn (ascii ''JSONDecodeError'') (ascii ''Expecting value: line 1 column 1 (char 0)'')) \<and>
   stdout (snd (run stub_world [ascii ''llm_client.py'', ascii ''not json''])) \<noteq> []\<close>
proof -
  have l: \<open>json_loads stub_world ([ascii ''llm_client.py'', ascii ''not json''] ! 1) =
     Inl (Exn (ascii ''JSONDecodeError'') (ascii ''Expecting value: line 1 column 1 (char 0)''))\<close>
    by (simp add: stub_loads_not_json)
  have d: \<open>dumps [(ascii ''error'', JStr (ascii ''Expecting value: line 1 column 1 (char 0)'')),
                  (ascii ''type'', JStr (ascii ''JSONDecodeError''))] =
     ascii ''{"error": "Expecting value: line 1 column 1 (char 0)", "type": "JSONDecodeError"}''\<close>
    by (simp add: dumps_def dumps_item_def encode_str_def escape_char_def ascii_def)
  have r: \<open>run stub_world [ascii ''llm_client.py'', ascii ''not json''] =
     (Exited 1,
      \<lparr>stdout = ascii ''{"error": "Expecting value: line 1 column 1 (char 0)", "type": "JSONDecodeError"}'' @ [10],
       trace = [Call_json_loads (ascii ''not json''),
                Call_print (ascii ''{"error": "Expecting value: line 1 column 1 (char 0)", "type": "JSONDecodeError"}'')]\<rparr>)\<close>
    using run_loads_fail[OF _ l] by (simp add: d)
  show ?thesis
    unfolding r using l by simp
qed

text \<open>
  C1, amended: when the argument is present and \<open>json.loads\<close> raises an exception
  \<open>e\<close>, the handler catches it: the process writes the one line
  \<open>{"error": str(e), "type": type(e).__name__}\<close> to standard output and exits with
  status 1, having made no other call.
\<close>

theorem malformed_json_reported:
  \<open>2 \<le> length argv \<Longrightarrow> json_loads w (argv ! 1) = Inl e \<Longrightarrow>
     run w argv =
       (Exited 1,
        \<lparr>stdout = ascii ''{"error": '' @ encode_str (exn_msg e) @ ascii '', "type": ''
                    @ encode_str (exn_type e) @ ascii ''}'' @ [10],
         trace = [Call_json_loads (argv ! 1),
                  Call_print (ascii ''{"error": '' @ encode_str (exn_msg e) @ ascii '', "type": ''
                    @ encode_str (exn_type e) @ ascii ''}'')]\<rparr>)\<close>
  by (simp add: run_loads_fail dumps_error_type)

theorem malformed_json_reported_witness:
  \<open>2 \<le> length [ascii ''llm_client.py'', ascii ''hello''] \<and>
   json_loads stub_world ([ascii ''llm_client.py'', ascii ''hello''] ! 1) =
     Inl (Exn (ascii ''JSONDecodeError'') (ascii ''Expecting value: line 1 column 1 (char 0)'')) \<and>
   run stub_world [ascii ''llm_client.py'', ascii ''hello''] =
     (Exited 1,
      \<lparr>stdout = ascii ''{"error": "Expecting value: line 1 column 1 (char 0)", "type": "JSONDecodeError"}'' @ [10],
       trace = [Call_json_loads (ascii ''hello''),
                Call_print (ascii ''{"error": "Expecting value: line 1 column 1 (char 0)", "type": "JSONDecodeError"}'')]\<rparr>)\<close>
proof -
  have l: \<open>json_loads stub_world ([ascii ''llm_client.py'', ascii ''hello''] ! 1) =
     Inl (Exn (ascii ''JSONDecodeError'') (ascii ''Expecting value: line 1 column 1 (char 0)''))\<close>
    by (simp add: stub_loads_hello)
  have m: \<open>encode_str (ascii ''Expecting value: line 1 column 1 (char 0)'')
     = ascii ''"Expecting value: line 1 column 1 (char 0)"''\<close>
    by (simp add: encode_str_def escape_char_def ascii_def)
  have c: \<open>encode_str (ascii ''JSONDecodeError'') = ascii ''"JSONDecodeError"''\<close>
    by (simp add: encode_str_def escape_char_def ascii_def)
  show ?thesis
    using malformed_json_reported[OF _ l] l by (simp add: m c) (simp add: ascii_def)
qed

subsection \<open>C3: a failure of the collaborator\<close>

text \<open>
  C3. When the input passes validation and the collaborator raises an exception
  \<open>e\<close> in building the session, choosing the model, building the user message or
  sending it, the process writes exactly the line
  \<open>{"error": str(e), "type": type(e).__name__}\<close> and exits with status 1. The type is
  the name of the exception's class, whatever it is; a class name is not empty, and
  then the printed type is not the empty JSON string.
\<close>

theorem collaborator_failure_reported:
  \<open>2 \<le> length argv \<Longrightarrow> json_loads w (argv ! 1) = Inr (PDict kvs) \<Longrightarrow>
   truthy (message_of kvs) \<Longrightarrow> truthy (api_key_of w kvs) \<Longrightarrow>
   collaborate w (api_key_of w kvs) (session_id_of kvs) (system_message_of kvs)
     (provider_of kvs) (model_of kvs) (message_of kvs) = Inl e \<Longrightarrow>
   exn_type e \<noteq> [] \<Longrightarrow>
     fst (run w argv) = Exited 1 \<and>
     stdout (snd (run w argv)) =
       ascii ''{"error": '' @ encode_str (exn_msg e) @ ascii '', "type": ''
         @ encode_str (exn_type e) @ ascii ''}'' @ [10] \<and>
     encode_str (exn_type e) \<noteq> ascii ''""''\<close>
proof -
  assume a: "2 \<le> length argv" "json_loads w (argv ! 1) = Inr (PDict kvs)"
    "truthy (message_of kvs)" "truthy (api_key_of w kvs)"
    "collaborate w (api_key_of w kvs) (session_id_of kvs) (system_message_of kvs)
       (provider_of kvs) (model_of kvs) (message_of kvs) = Inl e"
    and n: "exn_type e \<noteq> []"
  from run_collaborator_raises[OF a] obtain tr where
    "run w argv =
      (Exited 1,
       \<lparr>stdout = dumps [(ascii ''error'', JStr (exn_msg e)), (ascii ''type'', JStr (exn_type e))] @ [10],
        trace = [Call_json_loads (argv ! 1),
                 Call_LlmChat (api_key_of w kvs) (session_id_of kvs) (system_message_of kvs)] @ tr @
                [Call_print (dumps [(ascii ''error'', JStr (exn_msg e)), (ascii ''type'', JStr (exn_type e))])]\<rparr>)"
    by blast
  moreover have \<open>encode_str (exn_type e) \<noteq> ascii ''""''\<close>
    using encode_str_nonempty[OF n] by (simp add: ascii_def)
  ultimately show ?thesis by (simp add: dumps_error_type)
qed

theorem collaborator_failure_reported_witness:
  \<open>2 \<le> length [ascii ''llm_client.py'', ascii ''{"message": "hi", "apiKey": "k"}''] \<and>
   json_loads failing_world ([ascii ''llm_client.py'', ascii ''{"message": "hi", "apiKey": "k"}''] ! 1) =
     Inr (PDict [(ascii ''message'', PStr (ascii ''hi'')), (ascii ''apiKey'', PStr (ascii ''k''))]) \<and>
   truthy (PStr (ascii ''hi'')) \<and> truthy (PStr (ascii ''k'')) \<and>
   collaborate failing_world (PStr (ascii ''k'')) (PStr (ascii ''default''))
     (PStr (ascii ''You are Shadow, an AI coding agent.'')) (PStr (ascii ''openai''))
     (PStr (ascii ''gpt-4o-mini'')) (PStr (ascii ''hi''))
     = Inl (Exn (ascii ''RuntimeError'') (ascii ''boom'')) \<and>
   ascii ''RuntimeError'' \<noteq> [] \<and>
   fst (run failing_world [ascii ''llm_client.py'', ascii ''{"message": "hi", "apiKey": "k"}'']) = Exited 1 \<and>
   stdout (snd (run failing_world [ascii ''llm_client.py'', ascii ''{"message": "hi", "apiKey": "k"}''])) =
     ascii ''{"error": "boom", "type": "RuntimeError"}'' @ [10]\<close>
proof -
  let ?kvs = "[(ascii ''message'', PStr (ascii ''hi'')), (ascii ''apiKey'', PStr (ascii ''k''))]"
  have l: \<open>json_loads failing_world ([ascii ''llm_client.py'', ascii ''{"message": "hi", "apiKey": "k"}''] ! 1) =
     Inr (PDict ?kvs)\<close>
    by (simp add: failing_loads_hi_k)
  have m: "truthy (PStr (ascii ''hi''))" and k: "truthy (PStr (ascii ''k''))"
    by (simp_all add: ascii_def)
  have c: "collaborate failing_world (PStr (ascii ''k'')) (PStr (ascii ''default''))
     (PStr (ascii ''You are Shadow, an AI coding agent.'')) (PStr (ascii ''openai''))
     (PStr (ascii ''gpt-4o-mini'')) (PStr (ascii ''hi''))
     = Inl (Exn (ascii ''RuntimeError'') (ascii ''boom''))"
    by (simp add: collaborate_def failing_world_def stub_world_def)
  have n: "ascii ''RuntimeError'' \<noteq> []" by (simp add: ascii_def)
  have e: \<open>encode_str (ascii ''boom'') = ascii ''"boom"''\<close>
    \<open>encode_str (ascii ''RuntimeError'') = ascii ''"RuntimeError"''\<close>
    by (simp_all add: encode_str_def escape_char_def ascii_def)
  have \<open>fst (run failing_world [ascii ''llm_client.py'', ascii ''{"message": "hi", "apiKey": "k"}'']) = Exited 1 \<and>
     stdout (snd (run failing_world [ascii ''llm_client.py'', ascii ''{"message": "hi", "apiKey": "k"}''])) =
       ascii ''{"error": '' @ encode_str (ascii ''boom'') @ ascii '', "type": ''
         @ encode_str (ascii ''RuntimeError'') @ ascii ''}'' @ [10] \<and>
     encode_str (ascii ''RuntimeError'') \<noteq> ascii ''""''\<close>
    using collaborator_failure_reported[of _ failing_world ?kvs "Exn (ascii ''RuntimeError'') (ascii ''boom'')", OF _ l]
      m k c n by (simp add: hi_k_fields)
  then show ?thesis
    using l m k c n by (simp add: e) (simp add: ascii_def)
qed

subsection \<open>C2: the answer of the collaborator\<close>

text \<open>
  C2. When the argument parses to a JSON object with a truthy \<open>message\<close> and a
  truthy API key (its own, or the environment's when it has none), and the
  collaborator returns the response \<open>R\<close>, the process writes exactly the line
  \<open>{"success": true, "response": R, "timestamp": T}\<close> and exits with status 0.
  \<open>T\<close> is the isoformat text of the clock reading taken after the response: it reads
  back as a valid ISO-8601 timestamp, and on a wall clock that never runs backwards it
  is no earlier than the reading at the start of the invocation and no later than the
  reading at its end.
\<close>

theorem chat_success:
  \<open>2 \<le> length argv \<Longrightarrow> json_loads w (argv ! 1) = Inr (PDict kvs) \<Longrightarrow>
   truthy (message_of kvs) \<Longrightarrow> truthy (api_key_of w kvs) \<Longrightarrow>
   collaborate w (api_key_of w kvs) (session_id_of kvs) (system_message_of kvs)
     (provider_of kvs) (model_of kvs) (message_of kvs) = Inr R \<Longrightarrow>
   clock_ok w \<Longrightarrow>
     \<exists>T t.
       fst (run w argv) = Exited 0 \<and>
       stdout (snd (run w argv)) =
         ascii ''{"success": true, "response": '' @ encode_str R
           @ ascii '', "timestamp": "'' @ T @ ascii ''"}'' @ [10] \<and>
       iso8601_parse T = Some t \<and>
       datetime_le (clock w 0) t \<and>
       datetime_le t (clock w (length (trace (snd (run w argv)))))\<close>
proof -
  assume a: "2 \<le> length argv" "json_loads w (argv ! 1) = Inr (PDict kvs)"
    "truthy (message_of kvs)" "truthy (api_key_of w kvs)"
    and c: "collaborate w (api_key_of w kvs) (session_id_of kvs) (system_message_of kvs)
       (provider_of kvs) (model_of kvs) (message_of kvs) = Inr R"
    and ok: "clock_ok w"
  from c obtain c0 c um where r:
    "LlmChat w (api_key_of w kvs) (session_id_of kvs) (system_message_of kvs) = Inr c0"
    "with_model w c0 (provider_of kvs) (model_of kvs) = Inr c"
    "UserMessage w (message_of kvs) = Inr um" "send_message w c um = Inr R"
    by (rule collaborate_returns)
  note run = run_collaborator_returns[OF a r]
  from ok have v: "valid_datetime (clock w 5)"
    and le: "datetime_le (clock w 0) (clock w 5)" "datetime_le (clock w 5) (clock w 7)"
    by (simp_all add: clock_ok_def)
  have len: "length (trace (snd (run w argv))) = 7"
    by (simp add: run)
  have "fst (run w argv) = Exited 0"
    and \<open>stdout (snd (run w argv)) =
         ascii ''{"success": true, "response": '' @ encode_str R
           @ ascii '', "timestamp": "'' @ isoformat (clock w 5) @ ascii ''"}'' @ [10]\<close>
    by (simp_all add: run dumps_success_iso)
  with len le iso8601_parse_isoformat[OF v] show ?thesis
    by (intro exI[of _ "isoformat (clock w 5)"] exI[of _ "clock w 5"]) simp
qed

theorem chat_success_witness:
  \<open>2 \<le> length [ascii ''llm_client.py'', ascii ''{"message": "hi", "apiKey": "k"}''] \<and>
   json_loads stub_world ([ascii ''llm_client.py'', ascii ''{"message": "hi", "apiKey": "k"}''] ! 1) =
     Inr (PDict [(ascii ''message'', PStr (ascii ''hi'')), (ascii ''apiKey'', PStr (ascii ''k''))]) \<and>
   truthy (PStr (ascii ''hi'')) \<and> truthy (PStr (ascii ''k'')) \<and>
   collaborate stub_world (PStr (ascii ''k'')) (PStr (ascii ''default''))
     (PStr (ascii ''You are Shadow, an AI coding agent.'')) (PStr (ascii ''openai''))
     (PStr (ascii ''gpt-4o-mini'')) (PStr (ascii ''hi'')) = Inr (ascii ''hello'') \<and>
   clock_ok stub_world \<and>
   (\<exists>T t.
      fst (run stub_world [ascii ''llm_client.py'', ascii ''{"message": "hi", "apiKey": "k"}'']) = Exited 0 \<and>
      stdout (snd (run stub_world [ascii ''llm_client.py'', ascii ''{"message": "hi", "apiKey": "k"}''])) =
        ascii ''{"success": true, "response": '' @ encode_str (ascii ''hello'')
          @ ascii '', "timestamp": "'' @ T @ ascii ''"}'' @ [10] \<and>
      iso8601_parse T = Some t \<and>
      datetime_le (clock stub_world 0) t \<and>
      datetime_le t (clock stub_world (length (trace (snd (run stub_world
        [ascii ''llm_client.py'', ascii ''{"message": "hi", "apiKey": "k"}'']))))))  \<and>
   stdout (snd (run stub_world [ascii ''llm_client.py'', ascii ''{"message": "hi", "apiKey": "k"}''])) =
     ascii ''{"success": true, "response": "hello", "timestamp": "2024-02-29T23:59:58.000005"}'' @ [10]\<close>
proof -
  let ?kvs = "[(ascii ''message'', PStr (ascii ''hi'')), (ascii ''apiKey'', PStr (ascii ''k''))]"
  have l: \<open>json_loads stub_world ([ascii ''llm_client.py'', ascii ''{"message": "hi", "apiKey": "k"}''] ! 1) =
     Inr (PDict ?kvs)\<close>
    by (simp add: stub_loads_hi_k)
  have m: "truthy (PStr (ascii ''hi''))" and k: "truthy (PStr (ascii ''k''))"
    by (simp_all add: ascii_def)
  note c = stub_collaborate_hi_k
  note ok = clock_ok_stub
  have th: \<open>\<exists>T t.
      fst (run stub_world [ascii ''llm_client.py'', ascii ''{"message": "hi", "apiKey": "k"}'']) = Exited 0 \<and>
      stdout (snd (run stub_world [ascii ''llm_client.py'', ascii ''{"message": "hi", "apiKey": "k"}''])) =
        ascii ''{"success": true, "response": '' @ encode_str (ascii ''hello'')
          @ ascii '', "timestamp": "'' @ T @ ascii ''"}'' @ [10] \<and>
      iso8601_parse T = Some t \<and>
      datetime_le (clock stub_world 0) t \<and>
      datetime_le t (clock stub_world (length (trace (snd (run stub_world
        [ascii ''llm_client.py'', ascii ''{"message": "hi", "apiKey": "k"}''])))))\<close>
    using chat_success[of _ stub_world ?kvs "ascii ''hello''", OF _ l _ _ _ ok] m k c
    by (simp add: hi_k_fields)
  show ?thesis
    using l m k c ok th by (simp add: stub_run_hi_k)
qed

subsection \<open>C7: one session, one submission\<close>

text \<open>
  C7. When the input passes validation, the process builds exactly one chat session,
  from the API key, the session id and the system message; it submits at most one
  message and never repeats a call. When the session is built, the model chosen and
  the user message built, the first five effects are the parse, the construction, the
  choice of provider and model, the user message and its one submission. Session
  id, system message, provider and model are the values of the JSON object, or the
  literals \<open>default\<close>, \<open>You are Shadow, an AI coding agent.\<close>, \<open>openai\<close> and
  \<open>gpt-4o-mini\<close> when the object has no such key.
\<close>

theorem single_delegation:
  \<open>2 \<le> length argv \<Longrightarrow> json_loads w (argv ! 1) = Inr (PDict kvs) \<Longrightarrow>
   truthy (message_of kvs) \<Longrightarrow> truthy (api_key_of w kvs) \<Longrightarrow>
     filter is_construction (trace (snd (run w argv))) =
       [Call_LlmChat (api_key_of w kvs) (session_id_of kvs) (system_message_of kvs)] \<and>
     length (filter is_submission (trace (snd (run w argv)))) \<le> 1 \<and>
     (\<forall>c0 c um.
        LlmChat w (api_key_of w kvs) (session_id_of kvs) (system_message_of kvs) = Inr c0 \<longrightarrow>
        with_model w c0 (provider_of kvs) (model_of kvs) = Inr c \<longrightarrow>
        UserMessage w (message_of kvs) = Inr um \<longrightarrow>
          take 5 (trace (snd (run w argv))) =
            [Call_json_loads (argv ! 1),
             Call_LlmChat (api_key_of w kvs) (session_id_of kvs) (system_message_of kvs),
             Call_with_model c0 (provider_of kvs) (model_of kvs),
             Call_UserMessage (message_of kvs),
             Call_send_message c um] \<and>
          filter is_submission (trace (snd (run w argv))) = [Call_send_message c um]) \<and>
     session_id_of kvs =
       (case map_of kvs (ascii ''sessionId'') of None \<Rightarrow> PStr (ascii ''default'') | Some v \<Rightarrow> v) \<and>
     system_message_of kvs =
       (case map_of kvs (ascii ''systemMessage'') of
          None \<Rightarrow> PStr (ascii ''You are Shadow, an AI coding agent.'') | Some v \<Rightarrow> v) \<and>
     provider_of kvs =
       (case map_of kvs (ascii ''provider'') of None \<Rightarrow> PStr (ascii ''openai'') | Some v \<Rightarrow> v) \<and>
     model_of kvs =
       (case map_of kvs (ascii ''model'') of None \<Rightarrow> PStr (ascii ''gpt-4o-mini'') | Some v \<Rightarrow> v)\<close>
proof -
  assume a: "2 \<le> length argv" "json_loads w (argv ! 1) = Inr (PDict kvs)"
    "truthy (message_of kvs)" "truthy (api_key_of w kvs)"
  let ?tr = "trace (snd (run w argv))"
  let ?new = "Call_LlmChat (api_key_of w kvs) (session_id_of kvs) (system_message_of kvs)"
  have counts: "filter is_construction ?tr = [?new] \<and> length (filter is_submission ?tr) \<le> 1"
  proof (cases "collaborate w (api_key_of w kvs) (session_id_of kvs) (system_message_of kvs)
                  (provider_of kvs) (model_of kvs) (message_of kvs)")
    case (Inl e)
    from run_collaborator_raises[OF a Inl] obtain tr where
      r: "run w argv =
        (Exited 1,
         \<lparr>stdout = dumps [(ascii ''error'', JStr (exn_msg e)), (ascii ''type'', JStr (exn_type e))] @ [10],
          trace = [Call_json_loads (argv ! 1), ?new] @ tr @
                  [Call_print (dumps [(ascii ''error'', JStr (exn_msg e)), (ascii ''type'', JStr (exn_type e))])]\<rparr>)"
      and f: "filter is_construction tr = []" "length (filter is_submission tr) \<le> 1"
      by blast
    show ?thesis unfolding r using f by simp
  next
    case (Inr r)
    then obtain c0 c um where c:
      "LlmChat w (api_key_of w kvs) (session_id_of kvs) (system_message_of kvs) = Inr c0"
      "with_model w c0 (provider_of kvs) (model_of kvs) = Inr c"
      "UserMessage w (message_of kvs) = Inr um" "send_message w c um = Inr r"
      by (rule collaborate_returns)
    show ?thesis unfolding run_collaborator_returns[OF a c] by simp
  qed
  have full: "take 5 ?tr =
        [Call_json_loads (argv ! 1), ?new, Call_with_model c0 (provider_of kvs) (model_of kvs),
         Call_UserMessage (message_of kvs), Call_send_message c um] \<and>
      filter is_submission ?tr = [Call_send_message c um]"
    if c: "LlmChat w (api_key_of w kvs) (session_id_of kvs) (system_message_of kvs) = Inr c0"
      "with_model w c0 (provider_of kvs) (model_of kvs) = Inr c"
      "UserMessage w (message_of kvs) = Inr um"
    for c0 c um
  proof (cases "send_message w c um")
    case (Inl e)
    show ?thesis unfolding run_send_message_raises[OF a c Inl] by simp
  next
    case (Inr r)
    show ?thesis unfolding run_collaborator_returns[OF a c Inr] by simp
  qed
  show ?thesis
    using counts full by (simp add: dict_get_def split: option.splits)
qed

theorem single_delegation_witness:
  \<open>2 \<le> length [ascii ''llm_client.py'', ascii ''{"message": "hi", "apiKey": "k"}''] \<and>
   json_loads stub_world ([ascii ''llm_client.py'', ascii ''{"message": "hi", "apiKey": "k"}''] ! 1) =
     Inr (PDict [(ascii ''message'', PStr (ascii ''hi'')), (ascii ''apiKey'', PStr (ascii ''k''))]) \<and>
   truthy (PStr (ascii ''hi'')) \<and> truthy (PStr (ascii ''k'')) \<and>
   filter is_construction
     (trace (snd (run stub_world [ascii ''llm_client.py'', ascii ''{"message": "hi", "apiKey": "k"}'']))) =
     [Call_LlmChat (PStr (ascii ''k'')) (PStr (ascii ''default''))
        (PStr (ascii ''You are Shadow, an AI coding agent.''))] \<and>
   length (filter is_submission
     (trace (snd (run stub_world [ascii ''llm_client.py'', ascii ''{"message": "hi", "apiKey": "k"}''])))) \<le> 1 \<and>
   LlmChat stub_world (PStr (ascii ''k'')) (PStr (ascii ''default''))
     (PStr (ascii ''You are Shadow, an AI coding agent.'')) = Inr 0 \<and>
   with_model stub_world 0 (PStr (ascii ''openai'')) (PStr (ascii ''gpt-4o-mini'')) = Inr 1 \<and>
   UserMessage stub_world (PStr (ascii ''hi'')) = Inr (PStr (ascii ''hi'')) \<and>
   take 5 (trace (snd (run stub_world [ascii ''llm_client.py'', ascii ''{"message": "hi", "apiKey": "k"}'']))) =
     [Call_json_loads (ascii ''{"message": "hi", "apiKey": "k"}''),
      Call_LlmChat (PStr (ascii ''k'')) (PStr (ascii ''default''))
        (PStr (ascii ''You are Shadow, an AI coding agent.'')),
      Call_with_model 0 (PStr (ascii ''openai'')) (PStr (ascii ''gpt-4o-mini'')),
      Call_UserMessage (PStr (ascii ''hi'')),
      Call_send_message 1 (PStr (ascii ''hi''))] \<and>
   filter is_submission
     (trace (snd (run stub_world [ascii ''llm_client.py'', ascii ''{"message": "hi", "apiKey": "k"}''])))
     = [Call_send_message 1 (PStr (ascii ''hi''))]\<close>
proof -
  let ?argv = \<open>[ascii ''llm_client.py'', ascii ''{"message": "hi", "apiKey": "k"}'']\<close>
  let ?kvs = "[(ascii ''message'', PStr (ascii ''hi'')), (ascii ''apiKey'', PStr (ascii ''k''))]"
  have n: "2 \<le> length ?argv" by simp
  have l: "json_loads stub_world (?argv ! 1) = Inr (PDict ?kvs)"
    by (simp add: stub_loads_hi_k)
  have m: "truthy (PStr (ascii ''hi''))" and k: "truthy (PStr (ascii ''k''))"
    by (simp_all add: ascii_def)
  have tm: "truthy (message_of ?kvs)" and tk: "truthy (api_key_of stub_world ?kvs)"
    using m k by (simp_all add: hi_k_fields)
  note th = single_delegation[OF n l tm tk, unfolded hi_k_fields]
  note counts = th[THEN conjunct1] th[THEN conjunct2, THEN conjunct1]
  note full = th[THEN conjunct2, THEN conjunct2, THEN conjunct1, rule_format, OF stub_calls_hi_k]
  show ?thesis
    using n l m k counts full stub_calls_hi_k by simp
qed

subsection \<open>C8: one line of output\<close>

text \<open>
  C8. When the positional argument is absent or parses as JSON, the process writes
  exactly one line to standard output: the text of one JSON object, with no newline
  inside it, followed by a newline. The object has the success shape or the failure
  shape, and that print is the only one the process makes.
\<close>

theorem one_result_line:
  \<open>length argv < 2 \<or> (\<exists>v. json_loads w (argv ! 1) = Inr v) \<Longrightarrow>
     \<exists>d. stdout (snd (run w argv)) = dumps d @ [10] \<and>
         10 \<notin> set (dumps d) \<and>
         (success_shape d \<or> failure_shape d) \<and>
         filter is_print (trace (snd (run w argv))) = [Call_print (dumps d)]\<close>
  using run_one_line[of w argv] dumps_one_line by blast

theorem one_result_line_witness:
  \<open>(\<exists>v. json_loads stub_world ([ascii ''llm_client.py'', ascii ''{"message": "hi", "apiKey": "k"}''] ! 1) = Inr v) \<and>
   (\<exists>d. stdout (snd (run stub_world [ascii ''llm_client.py'', ascii ''{"message": "hi", "apiKey": "k"}''])) = dumps d @ [10] \<and>
         10 \<notin> set (dumps d) \<and>
         (success_shape d \<or> failure_shape d) \<and>
         filter is_print (trace (snd (run stub_world [ascii ''llm_client.py'', ascii ''{"message": "hi", "apiKey": "k"}''])))
           = [Call_print (dumps d)]) \<and>
   stdout (snd (run stub_world [ascii ''llm_client.py'', ascii ''{"message": "hi", "apiKey": "k"}''])) =
     ascii ''{"success": true, "response": "hello", "timestamp": "2024-02-29T23:59:58.000005"}'' @ [10]\<close>
proof -
  have l: \<open>\<exists>v. json_loads stub_world ([ascii ''llm_client.py'', ascii ''{"message": "hi", "apiKey": "k"}''] ! 1) = Inr v\<close>
    by (simp add: stub_loads_hi_k)
  from one_result_line[OF disjI2[OF l]] l show ?thesis
    by (simp add: stub_run_hi_k)
qed

end
